theory Spec2Isabelle
  imports Main
begin

section \<open>Python values: errors, bind, strings\<close>

text \<open>
  The program is a single Python script (\<^verbatim>\<open>etl_tnl_alert.py\<close>). Every exception the
  script or a library call can raise is a value of \<open>py_error\<close>; a computation that may
  raise returns \<open>py_error + 'a\<close> with \<open>Inl\<close> the exception.
\<close>

datatype py_error =
    Exception string
  | AttributeError
  | IndexError
  | KeyError
  | TypeError
  | ValueError
  | ParserError

definition bind_py :: "py_error + 'a \<Rightarrow> ('a \<Rightarrow> py_error + 'b) \<Rightarrow> py_error + 'b" where
  "bind_py r f = (case r of Inl e \<Rightarrow> Inl e | Inr x \<Rightarrow> f x)"

text \<open>A list comprehension or \<^verbatim>\<open>map\<close> whose body may raise: the first exception, scanning
  from the left, ends the whole evaluation.\<close>

fun traverse_py :: "('a \<Rightarrow> py_error + 'b) \<Rightarrow> 'a list \<Rightarrow> py_error + 'b list" where
  "traverse_py f [] = Inr []"
| "traverse_py f (x # xs) =
     bind_py (f x) (\<lambda>y. bind_py (traverse_py f xs) (\<lambda>ys. Inr (y # ys)))"

text \<open>
  A Python string is modelled as a \<open>string\<close>, one \<open>char\<close> for each code point, so the
  model speaks of the strings whose code points are below 256. \<^verbatim>\<open>str.strip()\<close> removes
  leading and trailing whitespace; the code points below 256 that Python counts as
  whitespace are 9 to 13, 28 to 32, 133 (next line) and 160 (no-break space).
\<close>

definition py_isspace :: "char \<Rightarrow> bool" where
  "py_isspace c = (c \<in> set [CHR 0x09, CHR 0x0A, CHR 0x0B, CHR 0x0C, CHR 0x0D,
                             CHR 0x1C, CHR 0x1D, CHR 0x1E, CHR 0x1F, CHR 0x20,
                             CHR 0x85, CHR 0xA0])"

definition py_strip :: "string \<Rightarrow> string" where
  "py_strip s = rev (dropWhile py_isspace (rev (dropWhile py_isspace s)))"

text \<open>\<^verbatim>\<open>s.split(sep)\<close> for a separator of one character: the pieces between the separators,
  always at least one piece.\<close>

fun py_split :: "char \<Rightarrow> string \<Rightarrow> string list" where
  "py_split sep [] = [[]]"
| "py_split sep (c # cs) =
     (if c = sep then [] # py_split sep cs
      else (case py_split sep cs of
              [] \<Rightarrow> [[c]]
            | p # ps \<Rightarrow> (c # p) # ps))"

text \<open>\<^verbatim>\<open>s.replace(old, new)\<close>: every occurrence of \<open>old\<close>, found from the left without
  overlap, becomes \<open>new\<close>. (With an empty \<open>old\<close> Python puts \<open>new\<close> before every character
  and at the end.)\<close>

function py_replace :: "string \<Rightarrow> string \<Rightarrow> string \<Rightarrow> string" where
  "py_replace old new s =
     (if old = [] then new @ concat (map (\<lambda>c. c # new) s)
      else if s = [] then []
      else if take (length old) s = old
        then new @ py_replace old new (drop (length old) s)
      else hd s # py_replace old new (tl s))"
  by pat_completeness auto
termination
  by (relation "measure (\<lambda>(old, new, s). length s)") auto

declare py_replace.simps [simp del]

definition ascii_uppercase :: string where
  "ascii_uppercase = ''ABCDEFGHIJKLMNOPQRSTUVWXYZ''"

definition ascii_lowercase :: string where
  "ascii_lowercase = ''abcdefghijklmnopqrstuvwxyz''"

definition is_upper :: "char \<Rightarrow> bool" where
  "is_upper c = (c \<in> set ascii_uppercase)"

definition is_lower :: "char \<Rightarrow> bool" where
  "is_lower c = (c \<in> set ascii_lowercase)"

definition to_upper :: "char \<Rightarrow> char" where
  "to_upper c = (case map_of (zip ascii_lowercase ascii_uppercase) c of Some u \<Rightarrow> u | None \<Rightarrow> c)"

definition to_lower :: "char \<Rightarrow> char" where
  "to_lower c = (case map_of (zip ascii_uppercase ascii_lowercase) c of Some l \<Rightarrow> l | None \<Rightarrow> c)"

text \<open>Upper and lower case are those of the letters \<^verbatim>\<open>A\<close> to \<^verbatim>\<open>Z\<close>; every other character
  is left as it is. \<^verbatim>\<open>str.capitalize()\<close>: first character upper case, the rest lower
  case.\<close>

definition py_capitalize :: "string \<Rightarrow> string" where
  "py_capitalize s = (case s of [] \<Rightarrow> [] | c # cs \<Rightarrow> to_upper c # map to_lower cs)"

text \<open>\<^verbatim>\<open>str.title()\<close>: a letter that follows a letter becomes lower case, any other letter
  upper case.\<close>

fun title_from :: "bool \<Rightarrow> string \<Rightarrow> string" where
  "title_from prev [] = []"
| "title_from prev (c # cs) =
     (if is_upper c \<or> is_lower c
      then (if prev then to_lower c else to_upper c) # title_from True cs
      else c # title_from False cs)"

definition py_title :: "string \<Rightarrow> string" where
  "py_title s = title_from False s"

section \<open>The organism pattern\<close>

text \<open>
  Line 136: \<^verbatim>\<open>org_pattern = r"([A-Z]\..*?)(?=,)"\<close>. A match starts at a capital letter
  followed by a period; the lazy \<^verbatim>\<open>.*?\<close> then takes the characters up to the first comma,
  which the lookahead requires and does not consume. \<^verbatim>\<open>.\<close> does not match a newline, so
  there is no match at a position whose first comma comes after a newline.
  \<open>org_match s\<close> is the match that starts at the first character of \<open>s\<close>, if there is one.
\<close>

definition org_match :: "string \<Rightarrow> string option" where
  "org_match s =
     (case s of
        a # b # rest \<Rightarrow>
          (let body = takeWhile (\<lambda>c. c \<noteq> CHR '','') rest
           in if is_upper a \<and> b = CHR ''.'' \<and> CHR '','' \<in> set rest \<and> CHR 0x0A \<notin> set body
              then Some (a # b # body) else None)
      | _ \<Rightarrow> None)"

text \<open>\<^verbatim>\<open>comp_pattern.search(s)\<close>: the match at the leftmost position that has one;
  \<open>None\<close> is Python's \<^verbatim>\<open>None\<close>.\<close>

fun re_search :: "string \<Rightarrow> string option" where
  "re_search [] = None"
| "re_search (c # cs) =
     (case org_match (c # cs) of Some m \<Rightarrow> Some m | None \<Rightarrow> re_search cs)"

text \<open>\<^verbatim>\<open>re.sub(org_pattern, lambda x: "", s)\<close>: every match, found from the left without
  overlap, is deleted.\<close>

function re_sub_empty :: "string \<Rightarrow> string" where
  "re_sub_empty s =
     (if s = [] then []
      else (case org_match s of
              Some m \<Rightarrow> re_sub_empty (drop (length m) s)
            | None \<Rightarrow> hd s # re_sub_empty (tl s)))"
  by pat_completeness auto
termination
  by (relation "measure length")
     (auto simp: org_match_def Let_def split: list.splits if_splits)

declare re_sub_empty.simps [simp del]

section \<open>Cells and the two splitting strategies\<close>

text \<open>
  A cell of a pandas DataFrame: a Python string, a timestamp, or a missing value
  (\<^verbatim>\<open>None\<close>, \<^verbatim>\<open>NaN\<close>, \<^verbatim>\<open>NaT\<close>). The type \<open>'d\<close> of timestamps is left open.
\<close>

datatype 'd cell = Str string | Ts 'd | NA

text \<open>Lines 124 to 127. \<^verbatim>\<open>list(map(lambda x: x.split("-"), ...))\<close> splits every cell first
  (a cell that is not a string has no \<^verbatim>\<open>split\<close>); the comprehension then unpacks each
  list of pieces into exactly two names, \<^verbatim>\<open>for m, o in ...\<close>, and strips both.\<close>

definition split_cell :: "'d cell \<Rightarrow> py_error + string list" where
  "split_cell c = (case c of Str s \<Rightarrow> Inr (py_split CHR ''-'' s) | _ \<Rightarrow> Inl AttributeError)"

definition unpack_strip :: "string list \<Rightarrow> py_error + (string \<times> string)" where
  "unpack_strip parts =
     (case parts of [m, org] \<Rightarrow> Inr (py_strip m, py_strip org) | _ \<Rightarrow> Inl ValueError)"

definition hyphen_pairs :: "'d cell list \<Rightarrow> py_error + (string \<times> string) list" where
  "hyphen_pairs col = bind_py (traverse_py split_cell col) (traverse_py unpack_strip)"

text \<open>Lines 139 to 145. For each cell, first \<^verbatim>\<open>re.sub\<close> (a \<^verbatim>\<open>TypeError\<close> on a cell that is
  not a string), then \<^verbatim>\<open>comp_pattern.search(s).group(0) or "UNKNOWN"\<close>: \<^verbatim>\<open>.group\<close> is
  looked up on the result of \<^verbatim>\<open>search\<close>, which is \<^verbatim>\<open>None\<close> when nothing matches.\<close>

definition prefix_pair :: "'d cell \<Rightarrow> py_error + (string \<times> string)" where
  "prefix_pair c =
     (case c of
        Str s \<Rightarrow>
          (let mech = re_sub_empty s
           in case re_search s of
                None \<Rightarrow> Inl AttributeError
              | Some g \<Rightarrow> Inr (mech, if g = [] then ''UNKNOWN'' else g))
      | _ \<Rightarrow> Inl TypeError)"

definition prefix_pairs :: "'d cell list \<Rightarrow> py_error + (string \<times> string) list" where
  "prefix_pairs col = traverse_py prefix_pair col"

text \<open>Lines 129 and 147: \<^verbatim>\<open>a, b = zip(*pairs)\<close>. With no pairs \<^verbatim>\<open>zip()\<close> yields nothing
  and the unpacking into two names raises.\<close>

definition unzip_pairs :: "(string \<times> string) list \<Rightarrow> py_error + (string list \<times> string list)" where
  "unzip_pairs pairs =
     (if pairs = [] then Inl ValueError else Inr (map fst pairs, map snd pairs))"

section \<open>The output key\<close>

text \<open>Line 64: \<^verbatim>\<open>clean_obj_key = alert_obj_key.replace(".xlsx", ".csv")\<close>.\<close>

definition clean_obj_key :: "string \<Rightarrow> string" where
  "clean_obj_key alert_obj_key = py_replace ''.xlsx'' ''.csv'' alert_obj_key"

section \<open>DataFrames\<close>

text \<open>
  A DataFrame is its columns in order, each a label with the column's cells. The script only
  builds frames whose columns all have the length of the same source table.
  \<^verbatim>\<open>df[name] = values\<close> replaces the column of that label where it is and appends a new
  label at the end; \<^verbatim>\<open>df[name] = scalar\<close> fills one cell per row of the frame.
  \<^verbatim>\<open>df[name]\<close> raises \<^verbatim>\<open>KeyError\<close> on a label the frame does not have. With a label that
  occurs twice pandas returns a frame instead of a column, and what is raised depends on
  the use the script makes of it: assigning the frame to one column of \<^verbatim>\<open>interim\<close> and
  \<^verbatim>\<open>pd.to_datetime\<close> of it raise \<^verbatim>\<open>ValueError\<close> (\<open>df_getitem\<close>); a frame has no attribute
  \<^verbatim>\<open>str\<close>, so \<^verbatim>\<open>df[name].str\<close> raises \<^verbatim>\<open>AttributeError\<close> (\<open>df_getitem_str\<close>).
\<close>

type_synonym ('l, 'd) frame = "('l \<times> 'd cell list) list"

definition df_empty :: "('l, 'd) frame" where
  "df_empty = []"

definition df_columns :: "('l, 'd) frame \<Rightarrow> 'l list" where
  "df_columns df = map fst df"

definition df_nrows :: "('l, 'd) frame \<Rightarrow> nat" where
  "df_nrows df = (case df of [] \<Rightarrow> 0 | (l, col) # rest \<Rightarrow> length col)"

definition df_setitem :: "'l \<Rightarrow> 'd cell list \<Rightarrow> ('l, 'd) frame \<Rightarrow> ('l, 'd) frame" where
  "df_setitem name col df =
     (if name \<in> set (df_columns df)
      then map (\<lambda>(l, old). if l = name then (l, col) else (l, old)) df
      else df @ [(name, col)])"

definition df_setitem_scalar :: "'l \<Rightarrow> 'd cell \<Rightarrow> ('l, 'd) frame \<Rightarrow> ('l, 'd) frame" where
  "df_setitem_scalar name v df = df_setitem name (replicate (df_nrows df) v) df"

definition df_getitem :: "('l, 'd) frame \<Rightarrow> 'l \<Rightarrow> py_error + 'd cell list" where
  "df_getitem df name =
     (case filter (\<lambda>(l, col). l = name) df of
        [] \<Rightarrow> Inl KeyError
      | [(l, col)] \<Rightarrow> Inr col
      | _ \<Rightarrow> Inl ValueError)"

definition df_getitem_str :: "('l, 'd) frame \<Rightarrow> 'l \<Rightarrow> py_error + 'd cell list" where
  "df_getitem_str df name =
     (case filter (\<lambda>(l, col). l = name) df of
        [] \<Rightarrow> Inl KeyError
      | [(l, col)] \<Rightarrow> Inr col
      | _ \<Rightarrow> Inl AttributeError)"

text \<open>
  \<^verbatim>\<open>df.name\<close>: an attribute that is not one of DataFrame's own is looked up among the
  column labels, and \<^verbatim>\<open>AttributeError\<close> is raised when no column has that label.
  DataFrame has no attribute \<^verbatim>\<open>find\<close>.
\<close>

definition df_getattr :: "(string, 'd) frame \<Rightarrow> string \<Rightarrow> py_error + 'd cell list" where
  "df_getattr df name =
     (if name \<in> set (df_columns df) then df_getitem df name else Inl AttributeError)"

text \<open>Line 121, \<^verbatim>\<open>data.find("Candida auris")\<close>: the attribute lookup, then the call. Were
  there a column labelled \<^verbatim>\<open>find\<close>, the lookup would give that column, which cannot be
  called.\<close>

definition df_find :: "(string, 'd) frame \<Rightarrow> string \<Rightarrow> py_error + int" where
  "df_find df sub = bind_py (df_getattr df ''find'') (\<lambda>series. Inl TypeError)"

text \<open>Truth value of a Python integer in \<^verbatim>\<open>if\<close>.\<close>

definition py_truthy :: "int \<Rightarrow> bool" where
  "py_truthy i = (i \<noteq> 0)"

section \<open>Library behaviour the script relies on\<close>

text \<open>
  What pandas and dateutil recognise as a date, and how a date is printed, is not part of
  the script. These are parameters of the model:
  \<^item> \<open>parse_dt col c\<close>: the timestamp \<^verbatim>\<open>pd.to_datetime(col, errors="coerce")\<close> reads from the
    cell \<open>c\<close> of the column \<open>col\<close>, \<open>None\<close> when it cannot read one;
  \<^item> \<open>fuzzy now s\<close>: the result of \<^verbatim>\<open>pd.to_datetime(dparser.parse(s, fuzzy=True))\<close>, or the
    exception it raises, when the clock of the job reads \<open>now\<close>: the call passes no
    \<^verbatim>\<open>default\<close>, and dateutil takes the year, month or day the text does not give from
    \<^verbatim>\<open>datetime.now()\<close>;
  \<^item> \<open>str_ok col\<close>: whether pandas gives the column a \<^verbatim>\<open>.str\<close> accessor (it raises
    \<^verbatim>\<open>AttributeError\<close> on a column whose values it does not take for strings);
  \<^item> \<open>fmt_dt col d\<close>: the text \<^verbatim>\<open>to_csv\<close> prints for the timestamp \<open>d\<close> in column \<open>col\<close>;
  \<^item> \<open>cr_quoted\<close>: whether the \<^verbatim>\<open>csv\<close> module of the interpreter puts a field that holds
    a carriage return in quotes (releases of Python differ in this).
\<close>

record 'd library =
  parse_dt :: "'d cell list \<Rightarrow> 'd cell \<Rightarrow> 'd option"
  fuzzy :: "'d \<Rightarrow> string \<Rightarrow> py_error + 'd"
  str_ok :: "'d cell list \<Rightarrow> bool"
  fmt_dt :: "'d cell list \<Rightarrow> 'd \<Rightarrow> string"
  cr_quoted :: bool

text \<open>\<^verbatim>\<open>pd.to_datetime(col, errors="coerce")\<close>: a cell that cannot be read becomes \<^verbatim>\<open>NaT\<close>;
  nothing is raised. A missing cell stays missing.\<close>

definition to_datetime_coerce :: "'d library \<Rightarrow> 'd cell list \<Rightarrow> 'd cell list" where
  "to_datetime_coerce lib col =
     map (\<lambda>c. case c of
                 NA \<Rightarrow> NA
               | _ \<Rightarrow> (case parse_dt lib col c of Some d \<Rightarrow> Ts d | None \<Rightarrow> NA)) col"

text \<open>Line 175, on the cell \<^verbatim>\<open>data.iloc[0, 0]\<close>, at the time \<open>now\<close>: dateutil accepts a string
  only, and its exception is not caught.\<close>

definition header_date :: "'d library \<Rightarrow> 'd \<Rightarrow> 'd cell \<Rightarrow> py_error + 'd" where
  "header_date lib now c = (case c of Str s \<Rightarrow> fuzzy lib now s | _ \<Rightarrow> Inl TypeError)"

text \<open>\<^verbatim>\<open>col.str.f()\<close> on a column: \<open>f\<close> on every string of the column, a missing value
  elsewhere.\<close>

definition str_method :: "'d library \<Rightarrow> (string \<Rightarrow> string) \<Rightarrow> 'd cell list \<Rightarrow> py_error + 'd cell list" where
  "str_method lib f col =
     (if str_ok lib col
      then Inr (map (\<lambda>c. case c of Str s \<Rightarrow> Str (f s) | _ \<Rightarrow> NA) col)
      else Inl AttributeError)"

text \<open>\<^verbatim>\<open>col + ", "\<close> and \<^verbatim>\<open>col1 + col2\<close> on columns of strings and missing values.\<close>

definition add_str :: "'d cell list \<Rightarrow> string \<Rightarrow> 'd cell list" where
  "add_str col t = map (\<lambda>c. case c of Str s \<Rightarrow> Str (s @ t) | _ \<Rightarrow> NA) col"

definition add_cols :: "'d cell list \<Rightarrow> 'd cell list \<Rightarrow> 'd cell list" where
  "add_cols xs ys =
     map (\<lambda>(x, y). case (x, y) of (Str a, Str b) \<Rightarrow> Str (a @ b) | _ \<Rightarrow> NA) (zip xs ys)"

section \<open>The spreadsheet parser (lines 100 to 156)\<close>

definition OUT_COL_NAMES :: "string list" where
  "OUT_COL_NAMES =
     [''Empty'', ''Testing-Results'', ''State'', ''Date_Received'', ''Date_Reported'',
      ''Last_Name'', ''First_Name'', ''DOB'', ''State_Lab_ID'', ''Specimen'',
      ''Date_Collection'', ''Submitting_Facility'', ''Sample_Collection_Facility'',
      ''Known_Positive'', ''Colonization_Detected'']"

text \<open>Lines 103 and 105, on the columns \<^verbatim>\<open>pd.read_excel\<close> returned: the first row is
  dropped, and assigning the fifteen names to a frame with another number of columns
  raises.\<close>

definition load_sheet :: "'d cell list list \<Rightarrow> py_error + (string, 'd) frame" where
  "load_sheet cols =
     (let body = map (drop 1) cols
      in if length body = length OUT_COL_NAMES then Inr (zip OUT_COL_NAMES body)
         else Inl ValueError)"

text \<open>Lines 122 to 156, once the condition of line 121 has the truth value \<open>cond\<close>.\<close>

definition spreadsheet_interim ::
  "'d library \<Rightarrow> bool \<Rightarrow> (string, 'd) frame \<Rightarrow> py_error + (string, 'd) frame" where
  "spreadsheet_interim lib cond data =
     (let interim = df_empty in
      bind_py (df_getitem data ''Testing-Results'') (\<lambda>results.
      bind_py (if cond then hyphen_pairs results else prefix_pairs results) (\<lambda>pairs.
      bind_py (unzip_pairs pairs) (\<lambda>(mechs, orgs).
      let interim = df_setitem ''Mechanism (*Submitters Report)'' (map Str mechs) interim;
          interim = df_setitem ''Organism'' (map Str orgs) interim in
      bind_py (df_getitem data ''Date_Received'') (\<lambda>received.
      let interim = df_setitem ''Date Received'' (to_datetime_coerce lib received) interim in
      bind_py (df_getitem data ''Date_Reported'') (\<lambda>reported.
      let interim = df_setitem ''Date Reported'' (to_datetime_coerce lib reported) interim in
      bind_py (df_getitem_str data ''Last_Name'') (\<lambda>last_name.
      bind_py (str_method lib py_title last_name) (\<lambda>last_title.
      bind_py (df_getitem_str data ''First_Name'') (\<lambda>first_name.
      bind_py (str_method lib py_title first_name) (\<lambda>first_title.
      let interim = df_setitem ''Patient Name''
                      (add_cols (add_str last_title '', '') first_title) interim in
      bind_py (df_getitem data ''DOB'') (\<lambda>dob.
      let interim = df_setitem ''DOB'' (to_datetime_coerce lib dob) interim in
      bind_py (df_getitem_str data ''Specimen'') (\<lambda>specimen.
      bind_py (str_method lib py_capitalize specimen) (\<lambda>source.
      let interim = df_setitem ''Source'' source interim in
      bind_py (df_getitem data ''Date_Collection'') (\<lambda>collection.
      let interim = df_setitem ''Date of Collection'' (to_datetime_coerce lib collection) interim;
          interim = df_setitem_scalar ''Testing Lab'' (Str ''TNL'') interim
      in Inr interim))))))))))))))"

text \<open>Lines 100 to 156: \<open>xl\<close> is what \<^verbatim>\<open>pd.read_excel\<close> returns (the columns of the sheet)
  or raises.\<close>

definition spreadsheet_stage ::
  "'d library \<Rightarrow> py_error + 'd cell list list \<Rightarrow> py_error + (string, 'd) frame" where
  "spreadsheet_stage lib xl =
     bind_py xl (\<lambda>cols.
     bind_py (load_sheet cols) (\<lambda>data.
     bind_py (df_find data ''Candida auris'') (\<lambda>found.
     spreadsheet_interim lib (py_truthy found) data)))"

section \<open>The document-table parser (lines 168 to 202)\<close>

text \<open>Lines 171 and 172: \<^verbatim>\<open>pd.DataFrame\<close> of the rows of cell texts. The columns are
  numbered; a row shorter than the longest is filled with missing values.\<close>

definition frame_of_rows :: "string list list \<Rightarrow> (nat, 'd) frame" where
  "frame_of_rows rows =
     (let w = foldr (\<lambda>r m. max (length r) m) rows 0
      in map (\<lambda>j. (j, map (\<lambda>r. if j < length r then Str (r ! j) else NA) rows)) [0..<w])"

text \<open>\<^verbatim>\<open>data.iloc[0, 0]\<close>: \<^verbatim>\<open>IndexError\<close> without a first row or a first column.\<close>

definition iloc00 :: "('l, 'd) frame \<Rightarrow> py_error + 'd cell" where
  "iloc00 df =
     (case df of
        [] \<Rightarrow> Inl IndexError
      | (l, col) # rest \<Rightarrow> (case col of [] \<Rightarrow> Inl IndexError | c # cs \<Rightarrow> Inr c))"

text \<open>Lines 176 and 177: the row labelled 1 becomes the column labels (\<^verbatim>\<open>KeyError\<close> when
  there is no such row), and the first two rows are dropped.\<close>

definition promote_header :: "(nat, 'd) frame \<Rightarrow> py_error + ('d cell, 'd) frame" where
  "promote_header df =
     (if df_nrows df < 2 then Inl KeyError
      else Inr (map (\<lambda>(j, col). (col ! 1, drop 2 col)) df))"

text \<open>Lines 190 to 202: \<open>interim\<close> starts again from an empty frame.\<close>

definition doc_table_interim ::
  "'d library \<Rightarrow> 'd \<Rightarrow> ('d cell, 'd) frame \<Rightarrow> py_error + (string, 'd) frame" where
  "doc_table_interim lib date_received data =
     (let interim = df_empty in
      bind_py (df_getitem data (Str ''Anti-Microbial Resistance RT-PCR'')) (\<lambda>mech.
      let interim = df_setitem ''Mechanism (*Submitters Report)'' mech interim in
      bind_py (df_getitem data (Str ''Organism ID'')) (\<lambda>org.
      let interim = df_setitem ''Organism'' org interim;
          interim = df_setitem_scalar ''Date Received'' (Ts date_received) interim;
          interim = df_setitem_scalar ''Date Reported'' (Ts date_received) interim in
      bind_py (df_getitem data (Str ''Patient Name'')) (\<lambda>name.
      let interim = df_setitem ''Patient Name'' name interim in
      bind_py (df_getitem data (Str ''DOB'')) (\<lambda>dob.
      let interim = df_setitem ''DOB'' (to_datetime_coerce lib dob) interim in
      bind_py (df_getitem_str data (Str ''Source'')) (\<lambda>src.
      bind_py (str_method lib py_capitalize src) (\<lambda>source.
      let interim = df_setitem ''Source'' source interim in
      bind_py (df_getitem data (Str ''Date of Collection'')) (\<lambda>collection.
      let interim = df_setitem ''Date of Collection'' (to_datetime_coerce lib collection) interim;
          interim = df_setitem_scalar ''Testing Lab'' (Str ''GPHL'') interim in
      bind_py (df_getitem data (Str ''Received from'')) (\<lambda>facility.
      let interim = df_setitem ''Facility of Origin'' facility interim
      in Inr interim)))))))))"

text \<open>Lines 168 to 202. \<open>doc\<close> is what \<^verbatim>\<open>Document(...)\<close> returns (the cell texts of its
  tables, row by row) or raises; \<open>now\<close> is what the clock reads; \<open>prev\<close> is the value the
  variable \<^verbatim>\<open>interim\<close> has when line 168 is reached. Line 190 assigns a new empty frame to
  the variable, so \<open>prev\<close> is not read.\<close>

definition doc_table_stage ::
  "'d library \<Rightarrow> 'd \<Rightarrow> py_error + string list list list \<Rightarrow> (string, 'd) frame
     \<Rightarrow> py_error + (string, 'd) frame" where
  "doc_table_stage lib now doc prev =
     bind_py doc (\<lambda>tables.
     case tables of
       [] \<Rightarrow> Inl IndexError
     | table # others \<Rightarrow>
         (let data = frame_of_rows table in
          bind_py (iloc00 data) (\<lambda>c.
          bind_py (header_date lib now c) (\<lambda>date_received.
          bind_py (promote_header data) (\<lambda>data.
          doc_table_interim lib date_received data)))))"

section \<open>Serialising and storing (lines 205 to 230)\<close>

text \<open>
  \<^verbatim>\<open>interim.to_csv(csv_buff, index=False)\<close>: a header line of the column labels, then
  one line per row with one field per column and nothing else (the index is not written).
  A missing value is an empty field. Quoting is the \<^verbatim>\<open>csv\<close> module's minimal one: a field
  is put in double quotes, with every double quote in it doubled, when it holds a comma, a
  double quote or a newline, and, with the interpreters that do so (\<open>cr_quoted\<close>), when it
  holds a carriage return; a line that consists of one empty field is written as two double
  quotes. The line end is the newline (\<^verbatim>\<open>os.linesep\<close> where the job runs).
\<close>

definition render_cell :: "'d library \<Rightarrow> 'd cell list \<Rightarrow> 'd cell \<Rightarrow> string" where
  "render_cell lib col c = (case c of Str s \<Rightarrow> s | Ts d \<Rightarrow> fmt_dt lib col d | NA \<Rightarrow> [])"

definition csv_rows :: "'d library \<Rightarrow> (string, 'd) frame \<Rightarrow> string list list" where
  "csv_rows lib df =
     df_columns df # transpose (map (\<lambda>(l, col). map (render_cell lib col) col) df)"

definition csv_field :: "'d library \<Rightarrow> string \<Rightarrow> string" where
  "csv_field lib s =
     (if (\<exists>c \<in> set s. c \<in> set [CHR '','', CHR 0x22, CHR 0x0A] \<or> (cr_quoted lib \<and> c = CHR 0x0D))
      then [CHR 0x22] @ concat (map (\<lambda>c. if c = CHR 0x22 then [c, c] else [c]) s) @ [CHR 0x22]
      else s)"

fun join_comma :: "string list \<Rightarrow> string" where
  "join_comma [] = []"
| "join_comma [f] = f"
| "join_comma (f # g # fs) = f @ '','' @ join_comma (g # fs)"

definition csv_line :: "'d library \<Rightarrow> string list \<Rightarrow> string" where
  "csv_line lib row =
     (if row = [[]] then [CHR 0x22, CHR 0x22, CHR 0x0A]
      else join_comma (map (csv_field lib) row) @ [CHR 0x0A])"

definition to_csv :: "'d library \<Rightarrow> (string, 'd) frame \<Rightarrow> string" where
  "to_csv lib df = concat (map (csv_line lib) (csv_rows lib df))"

text \<open>What the run does to the outside: the calls to the object store and to the logger,
  in order.\<close>

datatype event =
    GetObject string string
  | PutObject string string string
  | LogError string
  | LogInfo string

record params =
  raw_bucket_name :: string
  alert_obj_key :: string
  clean_bucket_name :: string

definition get_error_message :: "params \<Rightarrow> string" where
  "get_error_message p =
     ''ERROR - Could not get object '' @ alert_obj_key p @ '' from bucket '' @
     raw_bucket_name p @ ''. ETL Cannot continue.''"

definition put_error_message :: "params \<Rightarrow> string" where
  "put_error_message p =
     ''ERROR - Could not write transformed data object '' @ clean_obj_key (alert_obj_key p) @
     '' to bucket '' @ clean_bucket_name p @ ''. ETL Cannot continue.''"

text \<open>Lines 205 to 230. \<open>put_status\<close> is the \<^verbatim>\<open>HTTPStatusCode\<close> of the response to
  \<^verbatim>\<open>put_object\<close> (\<open>None\<close> when the response has none). The request is made first, with the
  whole text; its status is read afterwards.\<close>

definition write_stage ::
  "'d library \<Rightarrow> params \<Rightarrow> int option \<Rightarrow> (string, 'd) frame \<Rightarrow> (py_error + unit) \<times> event list" where
  "write_stage lib p put_status interim =
     (let body = to_csv lib interim;
          put = PutObject (clean_bucket_name p) (clean_obj_key (alert_obj_key p)) body
      in if put_status \<noteq> Some 200
         then (Inl (Exception (put_error_message p)), [put, LogError (put_error_message p)])
         else (Inr (),
               [put, LogInfo (''Transformed '' @ raw_bucket_name p @ ''/'' @ alert_obj_key p @
                              '' and wrote result to '' @ clean_bucket_name p @ ''/'' @
                              clean_obj_key (alert_obj_key p))]))"

section \<open>The whole script\<close>

text \<open>
  \<open>get_status\<close> is the \<^verbatim>\<open>HTTPStatusCode\<close> of the response to \<^verbatim>\<open>get_object\<close>, \<open>xl\<close> and
  \<open>doc\<close> what \<^verbatim>\<open>pd.read_excel\<close> and \<^verbatim>\<open>Document\<close> make of the body of that response. The
  result is the exception that ended the run, if any, with the events up to there.
  \<open>now\<close> is what the clock of the job reads. \<open>doc_and_write\<close> is the script from line 168 to
  its end, entered with \<open>prev\<close> as the value of \<^verbatim>\<open>interim\<close>.
\<close>

definition doc_and_write ::
  "'d library \<Rightarrow> 'd \<Rightarrow> params \<Rightarrow> int option \<Rightarrow> py_error + string list list list
     \<Rightarrow> (string, 'd) frame \<Rightarrow> (py_error + unit) \<times> event list" where
  "doc_and_write lib now p put_status doc prev =
     (case doc_table_stage lib now doc prev of
        Inl e \<Rightarrow> (Inl e, [])
      | Inr interim \<Rightarrow> write_stage lib p put_status interim)"

definition run ::
  "'d library \<Rightarrow> 'd \<Rightarrow> params \<Rightarrow> int option \<Rightarrow> int option \<Rightarrow> py_error + 'd cell list list
     \<Rightarrow> py_error + string list list list \<Rightarrow> (py_error + unit) \<times> event list" where
  "run lib now p get_status put_status xl doc =
     (let get = GetObject (raw_bucket_name p) (alert_obj_key p)
      in if get_status \<noteq> Some 200
         then (Inl (Exception (get_error_message p)), [get, LogError (get_error_message p)])
         else
           (let info = LogInfo (''Obtained object '' @ alert_obj_key p @ '' from bucket '' @
                                raw_bucket_name p @ ''.'')
            in case spreadsheet_stage lib xl of
                 Inl e \<Rightarrow> (Inl e, [get, info])
               | Inr interim \<Rightarrow>
                   (case doc_and_write lib now p put_status doc interim of
                      (r, events) \<Rightarrow> (r, [get, info] @ events))))"

section \<open>Terms of the statements\<close>

text \<open>What the hyphen convention promises for a cell, in the specification's words: the
  part left of the hyphen, trimmed, and the part right of it, trimmed.\<close>

definition hyphen_sides :: "string \<Rightarrow> string \<times> string" where
  "hyphen_sides s =
     (py_strip (takeWhile (\<lambda>c. c \<noteq> CHR ''-'') s),
      py_strip (tl (dropWhile (\<lambda>c. c \<noteq> CHR ''-'') s)))"

text \<open>The nine labels every output frame starts with, in the order the script assigns them,
  and the header line of the document-table output, without its line end.\<close>

definition canonical_columns :: "string list" where
  "canonical_columns =
     [''Mechanism (*Submitters Report)'', ''Organism'', ''Date Received'', ''Date Reported'',
      ''Patient Name'', ''DOB'', ''Source'', ''Date of Collection'', ''Testing Lab'']"

definition header_text :: string where
  "header_text =
     ''Mechanism (*Submitters Report),Organism,Date Received,Date Reported,'' @
     ''Patient Name,DOB,Source,Date of Collection,Testing Lab,Facility of Origin''"

text \<open>The frame that lines 122 to 156 build from the columns they compute, written out.\<close>

definition sheet_frame ::
  "'d cell list \<Rightarrow> 'd cell list \<Rightarrow> 'd cell list \<Rightarrow> 'd cell list \<Rightarrow> 'd cell list \<Rightarrow> 'd cell list
     \<Rightarrow> 'd cell list \<Rightarrow> 'd cell list \<Rightarrow> (string, 'd) frame" where
  "sheet_frame mech org received reported name dob source coll =
     [(''Mechanism (*Submitters Report)'', mech),
      (''Organism'', org),
      (''Date Received'', received),
      (''Date Reported'', reported),
      (''Patient Name'', name),
      (''DOB'', dob),
      (''Source'', source),
      (''Date of Collection'', coll),
      (''Testing Lab'', replicate (length mech) (Str ''TNL''))]"

text \<open>The frame that lines 190 to 202 build from the columns they read, written out.\<close>

definition doc_frame ::
  "'d library \<Rightarrow> 'd \<Rightarrow> 'd cell list \<Rightarrow> 'd cell list \<Rightarrow> 'd cell list \<Rightarrow> 'd cell list
     \<Rightarrow> 'd cell list \<Rightarrow> 'd cell list \<Rightarrow> 'd cell list \<Rightarrow> (string, 'd) frame" where
  "doc_frame lib d mech org name dob source coll fac =
     [(''Mechanism (*Submitters Report)'', mech),
      (''Organism'', org),
      (''Date Received'', replicate (length mech) (Ts d)),
      (''Date Reported'', replicate (length mech) (Ts d)),
      (''Patient Name'', name),
      (''DOB'', to_datetime_coerce lib dob),
      (''Source'', source),
      (''Date of Collection'', to_datetime_coerce lib coll),
      (''Testing Lab'', replicate (length mech) (Str ''GPHL'')),
      (''Facility of Origin'', fac)]"

text \<open>Whether a cell holds text, and the text it holds.\<close>

definition is_text :: "'d cell \<Rightarrow> bool" where
  "is_text c = (case c of Str s \<Rightarrow> True | _ \<Rightarrow> False)"

definition text_of :: "'d cell \<Rightarrow> string" where
  "text_of c = (case c of Str s \<Rightarrow> s | _ \<Rightarrow> [])"

text \<open>The frame \<open>df\<close> with other cells in the columns labelled \<open>name\<close>: \<open>f\<close> of the cells that
  were there.\<close>

definition df_replace :: "'l \<Rightarrow> ('d cell list \<Rightarrow> 'd cell list) \<Rightarrow> ('l, 'd) frame \<Rightarrow> ('l, 'd) frame" where
  "df_replace name f df = map (\<lambda>(l, col). (l, if l = name then f col else col)) df"

text \<open>The free-text header of a document: the first cell of the first row of its first
  table, \<open>None\<close> for a document that has no such cell.\<close>

definition header_cell :: "py_error + string list list list \<Rightarrow> string option" where
  "header_cell doc =
     (case doc of
        Inl e \<Rightarrow> None
      | Inr tables \<Rightarrow>
          (case tables of
             [] \<Rightarrow> None
           | table # others \<Rightarrow>
               (case table of
                  [] \<Rightarrow> None
                | row # rows \<Rightarrow> (case row of [] \<Rightarrow> None | s # cells \<Rightarrow> Some s))))"

text \<open>The requests to write among the events of a run.\<close>

definition is_put :: "event \<Rightarrow> bool" where
  "is_put ev = (case ev of PutObject b k body \<Rightarrow> True | _ \<Rightarrow> False)"

text \<open>
  A valid calendar date string, for the texts of the form \<^verbatim>\<open>YYYY-MM-DD\<close>: four digits of a
  year, two of a month from 1 to 12 and two of a day that this month has in this year of the
  Gregorian calendar.
\<close>

definition digit_val :: "char \<Rightarrow> nat option" where
  "digit_val c =
     map_of [(CHR ''0'', 0), (CHR ''1'', 1), (CHR ''2'', 2), (CHR ''3'', 3), (CHR ''4'', 4),
             (CHR ''5'', 5), (CHR ''6'', 6), (CHR ''7'', 7), (CHR ''8'', 8), (CHR ''9'', 9)] c"

fun number_of :: "nat \<Rightarrow> string \<Rightarrow> nat option" where
  "number_of n [] = Some n"
| "number_of n (c # cs) =
     (case digit_val c of None \<Rightarrow> None | Some v \<Rightarrow> number_of (10 * n + v) cs)"

definition days_in_month :: "nat \<Rightarrow> nat \<Rightarrow> nat" where
  "days_in_month y m =
     (if m = 2 then (if y mod 4 = 0 \<and> (y mod 100 \<noteq> 0 \<or> y mod 400 = 0) then 29 else 28)
      else if m = 4 \<or> m = 6 \<or> m = 9 \<or> m = 11 then 30
      else 31)"

definition iso_calendar_date :: "string \<Rightarrow> bool" where
  "iso_calendar_date s =
     (length s = 10 \<and> s ! 4 = CHR ''-'' \<and> s ! 7 = CHR ''-'' \<and>
      (case (number_of 0 (take 4 s), number_of 0 (take 2 (drop 5 s)),
             number_of 0 (take 2 (drop 8 s))) of
         (Some y, Some m, Some d) \<Rightarrow>
           1 \<le> y \<and> 1 \<le> m \<and> m \<le> 12 \<and> 1 \<le> d \<and> d \<le> days_in_month y m
       | _ \<Rightarrow> False))"

section \<open>An example run\<close>

text \<open>
  Concrete inputs for the instances of the theorems below. Timestamps and the reading of
  the clock are ISO texts. The library reads the date \<^verbatim>\<open>2024-01-05\<close> in a column; it finds
  a date in two header sentences and in no other text: one names the day, the month and the
  year, the other the day and the month only, and there the year is the one of the
  clock. A timestamp is printed as its ISO text.
\<close>

definition example_library :: "string library" where
  "example_library =
     \<lparr>parse_dt = (\<lambda>col c. if c = Str ''2024-01-05'' then Some ''2024-01-05'' else None),
      fuzzy = (\<lambda>now s. if s = ''Alert reported on March 3, 2024'' then Inr ''2024-03-03''
                        else if s = ''Alert reported on March 3'' then Inr (take 4 now @ ''-03-03'')
                        else Inl ParserError),
      str_ok = (\<lambda>col. True),
      fmt_dt = (\<lambda>col d. d),
      cr_quoted = False\<rparr>"

definition example_now :: string where
  "example_now = ''2024-06-01''"

definition example_params :: params where
  "example_params =
     \<lparr>raw_bucket_name = ''raw'', alert_obj_key = ''alerts/report.xlsx'',
      clean_bucket_name = ''clean''\<rparr>"

text \<open>A sheet as \<^verbatim>\<open>pd.read_excel\<close> returns it, column by column (the row of column titles is
  its first row), the same after lines 103 and 105, and the frame lines 122 to 156 build
  from it with the hyphen strategy.\<close>

definition example_sheet :: "string cell list list" where
  "example_sheet =
     [[Str ''Alert'', NA],
      [Str ''Description of Testing Completed and Results'', Str ''KPC - Candida auris''],
      [Str ''State'', Str ''TN''],
      [Str ''Date Received'', Str ''2024-01-05''],
      [Str ''Date Reported'', Str ''unknown''],
      [Str ''Last Name'', Str ''DOE''],
      [Str ''First Name'', Str ''jane''],
      [Str ''DOB'', Str ''2024-01-05''],
      [Str ''State Lab ID'', Str ''77''],
      [Str ''Specimen'', Str ''uRINE''],
      [Str ''Date of Collection'', Str ''2024-01-05''],
      [Str ''Submitting Facility'', Str ''General Hospital''],
      [Str ''Sample Collection Facility'', Str ''General Hospital''],
      [Str ''Known Positive'', Str ''No''],
      [Str ''Colonization Detected'', Str ''Yes'']]"

definition example_sheet_data :: "(string, string) frame" where
  "example_sheet_data =
     [(''Empty'', [NA]),
      (''Testing-Results'', [Str ''KPC - Candida auris'']),
      (''State'', [Str ''TN'']),
      (''Date_Received'', [Str ''2024-01-05'']),
      (''Date_Reported'', [Str ''unknown'']),
      (''Last_Name'', [Str ''DOE'']),
      (''First_Name'', [Str ''jane'']),
      (''DOB'', [Str ''2024-01-05'']),
      (''State_Lab_ID'', [Str ''77'']),
      (''Specimen'', [Str ''uRINE'']),
      (''Date_Collection'', [Str ''2024-01-05'']),
      (''Submitting_Facility'', [Str ''General Hospital'']),
      (''Sample_Collection_Facility'', [Str ''General Hospital'']),
      (''Known_Positive'', [Str ''No'']),
      (''Colonization_Detected'', [Str ''Yes''])]"

definition example_sheet_interim :: "(string, string) frame" where
  "example_sheet_interim =
     [(''Mechanism (*Submitters Report)'', [Str ''KPC'']),
      (''Organism'', [Str ''Candida auris'']),
      (''Date Received'', [Ts ''2024-01-05'']),
      (''Date Reported'', [NA]),
      (''Patient Name'', [Str ''Doe, Jane'']),
      (''DOB'', [Ts ''2024-01-05'']),
      (''Source'', [Str ''Urine'']),
      (''Date of Collection'', [Ts ''2024-01-05'']),
      (''Testing Lab'', [Str ''TNL''])]"

text \<open>A document table (the row with the report date, the row of column names, one row of
  data), the same once its second row has become the labels, the frame lines 190 to 202
  build from it, and the text \<^verbatim>\<open>to_csv\<close> makes of that frame.\<close>

definition example_table :: "string list list" where
  "example_table =
     [[''Alert reported on March 3, 2024'', []],
      [''Anti-Microbial Resistance RT-PCR'', ''Organism ID'', ''Patient Name'', ''DOB'',
       ''Source'', ''Date of Collection'', ''Received from''],
      [''KPC'', ''K. pneumoniae'', ''Doe, Jane'', ''2024-01-05'', ''uRINE'', ''unknown'',
       ''General Hospital'']]"

definition example_data :: "(string cell, string) frame" where
  "example_data =
     [(Str ''Anti-Microbial Resistance RT-PCR'', [Str ''KPC'']),
      (Str ''Organism ID'', [Str ''K. pneumoniae'']),
      (Str ''Patient Name'', [Str ''Doe, Jane'']),
      (Str ''DOB'', [Str ''2024-01-05'']),
      (Str ''Source'', [Str ''uRINE'']),
      (Str ''Date of Collection'', [Str ''unknown'']),
      (Str ''Received from'', [Str ''General Hospital''])]"

definition example_interim :: "(string, string) frame" where
  "example_interim =
     [(''Mechanism (*Submitters Report)'', [Str ''KPC'']),
      (''Organism'', [Str ''K. pneumoniae'']),
      (''Date Received'', [Ts ''2024-03-03'']),
      (''Date Reported'', [Ts ''2024-03-03'']),
      (''Patient Name'', [Str ''Doe, Jane'']),
      (''DOB'', [Ts ''2024-01-05'']),
      (''Source'', [Str ''Urine'']),
      (''Date of Collection'', [NA]),
      (''Testing Lab'', [Str ''GPHL'']),
      (''Facility of Origin'', [Str ''General Hospital''])]"

definition example_csv :: string where
  "example_csv =
     header_text @ [CHR 0x0A] @
     ''KPC,K. pneumoniae,2024-03-03,2024-03-03,'' @ [CHR 0x22] @ ''Doe, Jane'' @ [CHR 0x22] @
     '',2024-01-05,Urine,,GPHL,General Hospital'' @ [CHR 0x0A]"

text \<open>The same document with a header that names no year, read when the clock is a year
  later: the frame the document-table parser builds then, and its text.\<close>

definition example_later :: string where
  "example_later = ''2025-06-01''"

definition example_interim_later :: "(string, string) frame" where
  "example_interim_later =
     [(''Mechanism (*Submitters Report)'', [Str ''KPC'']),
      (''Organism'', [Str ''K. pneumoniae'']),
      (''Date Received'', [Ts ''2025-03-03'']),
      (''Date Reported'', [Ts ''2025-03-03'']),
      (''Patient Name'', [Str ''Doe, Jane'']),
      (''DOB'', [Ts ''2024-01-05'']),
      (''Source'', [Str ''Urine'']),
      (''Date of Collection'', [NA]),
      (''Testing Lab'', [Str ''GPHL'']),
      (''Facility of Origin'', [Str ''General Hospital''])]"

definition example_csv_later :: string where
  "example_csv_later =
     header_text @ [CHR 0x0A] @
     ''KPC,K. pneumoniae,2025-03-03,2025-03-03,'' @ [CHR 0x22] @ ''Doe, Jane'' @ [CHR 0x22] @
     '',2024-01-05,Urine,,GPHL,General Hospital'' @ [CHR 0x0A]"

text \<open>
  A document table of two records whose dates of birth are \<^verbatim>\<open>01/05/2024\<close> and
  \<^verbatim>\<open>1600-01-01\<close>, once its second row has become the labels, and pandas on that column: it
  reads the first cell and not the second, the year 1600 being outside the range of its
  nanosecond timestamps (1677 to 2262) and the text not being in the format of the first
  cell, in which pandas from version 2 on reads the whole column.
\<close>

definition example_dates_library :: "string library" where
  "example_dates_library =
     example_library
       \<lparr>parse_dt := (\<lambda>col c. if c = Str ''01/05/2024'' then Some ''2024-01-05'' else None)\<rparr>"

definition example_dates_data :: "(string cell, string) frame" where
  "example_dates_data =
     [(Str ''Anti-Microbial Resistance RT-PCR'', [Str ''KPC'', Str ''NDM'']),
      (Str ''Organism ID'', [Str ''K. pneumoniae'', Str ''E. coli'']),
      (Str ''Patient Name'', [Str ''Doe, Jane'', Str ''Roe, Richard'']),
      (Str ''DOB'', [Str ''01/05/2024'', Str ''1600-01-01'']),
      (Str ''Source'', [Str ''uRINE'', Str ''blood'']),
      (Str ''Date of Collection'', [Str ''unknown'', Str ''unknown'']),
      (Str ''Received from'', [Str ''General Hospital'', Str ''General Hospital''])]"

definition example_dates_interim :: "(string, string) frame" where
  "example_dates_interim =
     [(''Mechanism (*Submitters Report)'', [Str ''KPC'', Str ''NDM'']),
      (''Organism'', [Str ''K. pneumoniae'', Str ''E. coli'']),
      (''Date Received'', [Ts ''2024-03-03'', Ts ''2024-03-03'']),
      (''Date Reported'', [Ts ''2024-03-03'', Ts ''2024-03-03'']),
      (''Patient Name'', [Str ''Doe, Jane'', Str ''Roe, Richard'']),
      (''DOB'', [Ts ''2024-01-05'', NA]),
      (''Source'', [Str ''Urine'', Str ''Blood'']),
      (''Date of Collection'', [NA, NA]),
      (''Testing Lab'', [Str ''GPHL'', Str ''GPHL'']),
      (''Facility of Origin'', [Str ''General Hospital'', Str ''General Hospital''])]"

section \<open>Facts about the stages\<close>

lemma bind_py_Inr: "bind_py r f = Inr y \<longleftrightarrow> (\<exists>x. r = Inr x \<and> f x = Inr y)"
  by (cases r) (auto simp: bind_py_def)

lemma str_method_Inr:
  "str_method lib f col = Inr out \<longleftrightarrow>
     str_ok lib col \<and> out = map (\<lambda>c. case c of Str s \<Rightarrow> Str (f s) | _ \<Rightarrow> NA) col"
  by (auto simp: str_method_def)

lemma df_getitem_str_Inr: "df_getitem_str df l = Inr col \<longleftrightarrow> df_getitem df l = Inr col"
  by (simp add: df_getitem_str_def df_getitem_def split: list.splits)

lemma df_getitem_mem: "df_getitem df l = Inr col \<Longrightarrow> (l, col) \<in> set df"
proof -
  assume "df_getitem df l = Inr col"
  then obtain l' where "filter (\<lambda>(l', c). l' = l) df = [(l', col)]"
    by (auto simp: df_getitem_def split: list.splits)
  then have "(l', col) \<in> set (filter (\<lambda>(l', c). l' = l) df)" by simp
  then show ?thesis by auto
qed

lemma doc_frame_eval:
  "df_setitem ''Facility of Origin'' fac
    (df_setitem_scalar ''Testing Lab'' (Str ''GPHL'')
      (df_setitem ''Date of Collection'' (to_datetime_coerce lib coll)
        (df_setitem ''Source'' source
          (df_setitem ''DOB'' (to_datetime_coerce lib dob)
            (df_setitem ''Patient Name'' name
              (df_setitem_scalar ''Date Reported'' (Ts d)
                (df_setitem_scalar ''Date Received'' (Ts d)
                  (df_setitem ''Organism'' org
                    (df_setitem ''Mechanism (*Submitters Report)'' mech df_empty)))))))))
   = doc_frame lib d mech org name dob source coll fac"
  by (simp add: df_setitem_def df_setitem_scalar_def df_empty_def df_columns_def df_nrows_def
        doc_frame_def)

lemma doc_table_interim_shape:
  assumes "doc_table_interim lib d data = Inr interim"
  shows "\<exists>mech org name dob src coll fac.
    df_getitem data (Str ''Anti-Microbial Resistance RT-PCR'') = Inr mech \<and>
    df_getitem data (Str ''Organism ID'') = Inr org \<and>
    df_getitem data (Str ''Patient Name'') = Inr name \<and>
    df_getitem data (Str ''DOB'') = Inr dob \<and>
    df_getitem data (Str ''Source'') = Inr src \<and>
    df_getitem data (Str ''Date of Collection'') = Inr coll \<and>
    df_getitem data (Str ''Received from'') = Inr fac \<and>
    str_ok lib src \<and>
    interim = doc_frame lib d mech org name dob
                (map (\<lambda>c. case c of Str s \<Rightarrow> Str (py_capitalize s) | _ \<Rightarrow> NA) src) coll fac"
  using assms
  unfolding doc_table_interim_def Let_def bind_py_Inr str_method_Inr df_getitem_str_Inr
    doc_frame_eval
  by (elim exE conjE) simp

lemma frame_of_rows_length:
  "(j, col) \<in> set (frame_of_rows table) \<Longrightarrow> length col = length table"
  by (auto simp: frame_of_rows_def Let_def)

lemma iloc00_frame_of_rows:
  "iloc00 (frame_of_rows table) = Inr c \<Longrightarrow>
     \<exists>row0 rows. table = row0 # rows \<and> c = (case row0 of [] \<Rightarrow> NA | s # rest \<Rightarrow> Str s)"
proof -
  assume a: "iloc00 (frame_of_rows table) = Inr c"
  define w where "w = foldr (\<lambda>r m. max (length r) m) table 0"
  have w: "0 < w"
  proof (rule ccontr)
    assume "\<not> 0 < w"
    then have "frame_of_rows table = ([] :: (nat, 'a) frame)"
      by (simp add: frame_of_rows_def w_def)
    with a show False by (simp add: iloc00_def)
  qed
  then have "table \<noteq> []" by (auto simp: w_def)
  then obtain row0 rows where t: "table = row0 # rows" by (cases table) auto
  from w have "[0..<w] = 0 # [1..<w]" by (simp add: upt_conv_Cons)
  then have "frame_of_rows table =
    ((0, map (\<lambda>r. if 0 < length r then Str (r ! 0) else NA) table) #
      map (\<lambda>j. (j, map (\<lambda>r. if j < length r then Str (r ! j) else NA) table)) [1..<w]
      :: (nat, 'a) frame)"
    unfolding frame_of_rows_def Let_def w_def [symmetric] by simp
  with a t have "c = (if 0 < length row0 then Str (row0 ! 0) else NA)"
    by (simp add: iloc00_def)
  then have "c = (case row0 of [] \<Rightarrow> NA | s # rest \<Rightarrow> Str s)" by (cases row0) auto
  with t show ?thesis by blast
qed

lemma promote_header_length:
  assumes "promote_header (frame_of_rows table) = Inr data" and "(l, col) \<in> set data"
  shows "length col = length table - 2"
proof -
  from assms obtain j c where
    "(j, c) \<in> set (frame_of_rows table :: (nat, 'a) frame)" and "col = drop 2 c"
    by (auto simp: promote_header_def split: if_splits)
  then show ?thesis by (simp add: frame_of_rows_length)
qed

lemma doc_table_stage_Inr:
  assumes "doc_table_stage lib now doc prev = Inr interim"
  shows "\<exists>s row0 rows others d data.
           doc = Inr (((s # row0) # rows) # others) \<and> fuzzy lib now s = Inr d \<and>
           promote_header (frame_of_rows ((s # row0) # rows)) = Inr data \<and>
           doc_table_interim lib d data = Inr interim"
proof -
  from assms obtain tables where doc': "doc = Inr tables"
    by (cases doc) (auto simp: doc_table_stage_def bind_py_def)
  with assms obtain table others where tables: "tables = table # others"
    by (cases tables) (auto simp: doc_table_stage_def bind_py_def)
  with doc' have doc: "doc = Inr (table # others)" by simp
  with assms obtain c d data where
    c: "iloc00 (frame_of_rows table :: (nat, 'a) frame) = Inr c" and
    d: "header_date lib now c = Inr d" and
    data: "promote_header (frame_of_rows table) = Inr data" and
    interim: "doc_table_interim lib d data = Inr interim"
    by (auto simp: doc_table_stage_def Let_def bind_py_Inr)
  from iloc00_frame_of_rows [OF c] obtain row0 rows where
    t: "table = row0 # rows" and c': "c = (case row0 of [] \<Rightarrow> NA | s # rest \<Rightarrow> Str s)"
    by blast
  from d c' obtain s rest where "row0 = s # rest" and "fuzzy lib now s = Inr d"
    by (cases row0) (auto simp: header_date_def)
  with doc t data interim show ?thesis by blast
qed

lemma doc_table_stage_frame:
  assumes "doc_table_stage lib now doc prev = Inr interim"
  shows "\<exists>s row0 rows others d mech org name dob source coll fac.
           doc = Inr (((s # row0) # rows) # others) \<and> fuzzy lib now s = Inr d \<and>
           interim = doc_frame lib d mech org name dob source coll fac \<and>
           length mech = Suc (length rows) - 2 \<and> length org = Suc (length rows) - 2 \<and>
           length name = Suc (length rows) - 2 \<and> length dob = Suc (length rows) - 2 \<and>
           length source = Suc (length rows) - 2 \<and> length coll = Suc (length rows) - 2 \<and>
           length fac = Suc (length rows) - 2"
proof -
  from doc_table_stage_Inr [OF assms] obtain s row0 rows others d data where
    doc: "doc = Inr (((s # row0) # rows) # others)" and d: "fuzzy lib now s = Inr d" and
    data: "promote_header (frame_of_rows ((s # row0) # rows)) = Inr data" and
    interim: "doc_table_interim lib d data = Inr interim"
    by blast
  from doc_table_interim_shape [OF interim] obtain mech org name dob src coll fac where
    cols: "df_getitem data (Str ''Anti-Microbial Resistance RT-PCR'') = Inr mech"
      "df_getitem data (Str ''Organism ID'') = Inr org"
      "df_getitem data (Str ''Patient Name'') = Inr name"
      "df_getitem data (Str ''DOB'') = Inr dob"
      "df_getitem data (Str ''Source'') = Inr src"
      "df_getitem data (Str ''Date of Collection'') = Inr coll"
      "df_getitem data (Str ''Received from'') = Inr fac" and
    frame: "interim = doc_frame lib d mech org name dob
                (map (\<lambda>c. case c of Str s \<Rightarrow> Str (py_capitalize s) | _ \<Rightarrow> NA) src) coll fac"
    by blast
  have len: "length col = Suc (length rows) - 2" if "df_getitem data l = Inr col" for l col
    using promote_header_length [OF data df_getitem_mem [OF that]] by simp
  from cols have "length mech = Suc (length rows) - 2" "length org = Suc (length rows) - 2"
    "length name = Suc (length rows) - 2" "length dob = Suc (length rows) - 2"
    "length (map (\<lambda>c. case c of Str s \<Rightarrow> Str (py_capitalize s) | _ \<Rightarrow> NA) src) = Suc (length rows) - 2"
    "length coll = Suc (length rows) - 2" "length fac = Suc (length rows) - 2"
    by (simp_all add: len)
  with doc d frame show ?thesis by blast
qed

lemma doc_frame_get:
  "df_getitem (doc_frame lib d mech org name dob source coll fac) ''Date Received'' =
     Inr (replicate (length mech) (Ts d))"
  "df_getitem (doc_frame lib d mech org name dob source coll fac) ''Date Reported'' =
     Inr (replicate (length mech) (Ts d))"
  "df_getitem (doc_frame lib d mech org name dob source coll fac) ''Testing Lab'' =
     Inr (replicate (length mech) (Str ''GPHL''))"
  "df_nrows (doc_frame lib d mech org name dob source coll fac) = length mech"
  "df_columns (doc_frame lib d mech org name dob source coll fac) =
     canonical_columns @ [''Facility of Origin'']"
  by (simp_all add: df_getitem_def doc_frame_def df_nrows_def df_columns_def canonical_columns_def)

lemma write_stage_events:
  "snd (write_stage lib p ps interim) =
     [PutObject (clean_bucket_name p) (clean_obj_key (alert_obj_key p)) (to_csv lib interim),
      if ps \<noteq> Some 200 then LogError (put_error_message p)
      else LogInfo (''Transformed '' @ raw_bucket_name p @ ''/'' @ alert_obj_key p @
                    '' and wrote result to '' @ clean_bucket_name p @ ''/'' @
                    clean_obj_key (alert_obj_key p))]"
  by (simp add: write_stage_def Let_def)

lemma doc_and_write_put:
  assumes "PutObject b k body \<in> set (snd (doc_and_write lib now p ps doc prev))"
  shows "\<exists>interim. doc_table_stage lib now doc df_empty = Inr interim \<and> body = to_csv lib interim"
proof (cases "doc_table_stage lib now doc prev")
  case (Inl e)
  with assms show ?thesis by (simp add: doc_and_write_def)
next
  case (Inr interim)
  have same: "doc_table_stage lib now doc prev = doc_table_stage lib now doc df_empty"
    by (simp add: doc_table_stage_def)
  from Inr assms have "body = to_csv lib interim"
    by (auto simp: doc_and_write_def write_stage_events split: if_splits)
  with Inr same show ?thesis by simp
qed

lemma header_line: "csv_line lib (canonical_columns @ [''Facility of Origin'']) = header_text @ [CHR 0x0A]"
  by (simp add: csv_line_def csv_field_def canonical_columns_def header_text_def)

lemma to_csv_header:
  "to_csv lib df = csv_line lib (df_columns df) @ concat (map (csv_line lib) (tl (csv_rows lib df)))"
  by (simp add: to_csv_def csv_rows_def)

lemma sheet_frame_eval:
  "df_setitem_scalar ''Testing Lab'' (Str ''TNL'')
     (df_setitem ''Date of Collection'' coll
       (df_setitem ''Source'' source
         (df_setitem ''DOB'' dob
           (df_setitem ''Patient Name'' name
             (df_setitem ''Date Reported'' reported
               (df_setitem ''Date Received'' received
                 (df_setitem ''Organism'' org
                   (df_setitem ''Mechanism (*Submitters Report)'' mech df_empty))))))))
   = sheet_frame mech org received reported name dob source coll"
  by (simp add: df_setitem_def df_setitem_scalar_def df_empty_def df_columns_def df_nrows_def
        sheet_frame_def)

lemma unzip_pairs_Inr:
  "unzip_pairs pairs = Inr x \<longleftrightarrow> pairs \<noteq> [] \<and> x = (map fst pairs, map snd pairs)"
  by (auto simp: unzip_pairs_def)

lemma spreadsheet_interim_shape:
  assumes "spreadsheet_interim lib cond data = Inr interim"
  shows "\<exists>results pairs received reported last_name first_name dob specimen coll.
    df_getitem data ''Testing-Results'' = Inr results \<and>
    (if cond then hyphen_pairs results else prefix_pairs results) = Inr pairs \<and>
    pairs \<noteq> [] \<and>
    df_getitem data ''Date_Received'' = Inr received \<and>
    df_getitem data ''Date_Reported'' = Inr reported \<and>
    df_getitem data ''Last_Name'' = Inr last_name \<and>
    df_getitem data ''First_Name'' = Inr first_name \<and>
    df_getitem data ''DOB'' = Inr dob \<and>
    df_getitem data ''Specimen'' = Inr specimen \<and>
    df_getitem data ''Date_Collection'' = Inr coll \<and>
    str_ok lib last_name \<and> str_ok lib first_name \<and> str_ok lib specimen \<and>
    interim = sheet_frame (map Str (map fst pairs)) (map Str (map snd pairs))
                (to_datetime_coerce lib received) (to_datetime_coerce lib reported)
                (add_cols (add_str (map (\<lambda>c. case c of Str s \<Rightarrow> Str (py_title s) | _ \<Rightarrow> NA) last_name) '', '')
                          (map (\<lambda>c. case c of Str s \<Rightarrow> Str (py_title s) | _ \<Rightarrow> NA) first_name))
                (to_datetime_coerce lib dob)
                (map (\<lambda>c. case c of Str s \<Rightarrow> Str (py_capitalize s) | _ \<Rightarrow> NA) specimen)
                (to_datetime_coerce lib coll)"
  using assms
  unfolding spreadsheet_interim_def Let_def bind_py_Inr str_method_Inr unzip_pairs_Inr
    df_getitem_str_Inr split_def sheet_frame_eval
  by (elim exE conjE) simp

lemma csv_rows_rect:
  assumes rect: "\<forall>(l, col) \<in> set df. length col = n" and ne: "df \<noteq> []"
  shows "\<exists>rows. csv_rows lib df = df_columns df # rows \<and> length rows = n \<and>
           (\<forall>row \<in> set rows. length row = length df)"
proof -
  define xs where "xs = map (\<lambda>(l, col). map (render_cell lib col) col) df"
  have len: "length xs = length df" by (simp add: xs_def)
  have r: "length (xs ! i) = n" if "i < length xs" for i
  proof -
    from that len have "df ! i \<in> set df" by simp
    with rect have "length (snd (df ! i)) = n" by (auto simp: split_def)
    with that len show ?thesis by (simp add: xs_def split_def)
  qed
  from ne len have "xs = [] \<Longrightarrow> n = 0" by auto
  from transpose_rectangle [OF this r]
  have "transpose xs = map (\<lambda>i. map (\<lambda>j. xs ! j ! i) [0..<length xs]) [0..<n]" by simp
  with len have "length (transpose xs) = n" "\<forall>row \<in> set (transpose xs). length row = length df"
    by auto
  then show ?thesis by (simp add: csv_rows_def xs_def)
qed

lemma doc_frame_rect:
  assumes "length mech = n" "length org = n" "length name = n" "length dob = n"
    "length source = n" "length coll = n" "length fac = n"
  shows "\<forall>(l, col) \<in> set (doc_frame lib d mech org name dob source coll fac). length col = n"
  using assms by (simp add: doc_frame_def to_datetime_coerce_def)

lemma bind_py_Inl: "bind_py r f = Inl e \<longleftrightarrow> r = Inl e \<or> (\<exists>x. r = Inr x \<and> f x = Inl e)"
  by (cases r) (auto simp: bind_py_def)

lemma str_method_parse [simp]: "str_method (lib\<lparr>parse_dt := q\<rparr>) f col = str_method lib f col"
  by (simp add: str_method_def)

lemma sheet_err_indep:
  "spreadsheet_interim (lib\<lparr>parse_dt := q\<rparr>) cond data = Inl e \<longleftrightarrow>
   spreadsheet_interim lib cond data = Inl e"
  unfolding spreadsheet_interim_def Let_def bind_py_Inl str_method_parse split_def
  by simp

lemma doc_err_indep:
  "doc_table_interim (lib\<lparr>parse_dt := q\<rparr>) d data = Inl e \<longleftrightarrow>
   doc_table_interim lib d data = Inl e"
  unfolding doc_table_interim_def Let_def bind_py_Inl str_method_parse
  by simp

lemma iloc00_first_cell: "iloc00 (frame_of_rows ((s # row0) # rows)) = Inr (Str s)"
proof -
  define w where "w = foldr (\<lambda>r m. max (length r) m) ((s # row0) # rows) 0"
  have "0 < w" by (simp add: w_def)
  then have "[0..<w] = 0 # [1..<w]" by (simp add: upt_conv_Cons)
  then show ?thesis
    unfolding frame_of_rows_def Let_def w_def [symmetric] by (simp add: iloc00_def)
qed

lemma sheet_frame_get:
  "df_getitem (sheet_frame mech org received reported name dob source coll) ''Date Received'' = Inr received"
  "df_getitem (sheet_frame mech org received reported name dob source coll) ''Date Reported'' = Inr reported"
  "df_getitem (sheet_frame mech org received reported name dob source coll) ''DOB'' = Inr dob"
  "df_getitem (sheet_frame mech org received reported name dob source coll) ''Date of Collection'' = Inr coll"
  by (simp_all add: df_getitem_def sheet_frame_def)

lemma doc_frame_get_dates:
  "df_getitem (doc_frame lib d mech org name dob source coll fac) ''DOB'' =
     Inr (to_datetime_coerce lib dob)"
  "df_getitem (doc_frame lib d mech org name dob source coll fac) ''Date of Collection'' =
     Inr (to_datetime_coerce lib coll)"
  by (simp_all add: df_getitem_def doc_frame_def)

lemma run_put_in_fragment:
  assumes "PutObject b k body \<in> set (snd (run lib now p get_status put_status xl doc))"
  shows "\<exists>prev. PutObject b k body \<in> set (snd (doc_and_write lib now p put_status doc prev))"
proof (cases "get_status \<noteq> Some 200")
  case True
  with assms show ?thesis by (simp add: run_def Let_def)
next
  case False
  show ?thesis
  proof (cases "spreadsheet_stage lib xl")
    case (Inl e)
    with False assms show ?thesis by (simp add: run_def Let_def)
  next
    case (Inr interim)
    with False assms
    have "PutObject b k body \<in> set (snd (doc_and_write lib now p put_status doc interim))"
      by (auto simp: run_def Let_def split: prod.splits)
    then show ?thesis by blast
  qed
qed

lemma doc_and_write_cases:
  "doc_and_write lib now p ps doc prev =
     (case doc_table_stage lib now doc prev of
        Inl e \<Rightarrow> (Inl e, [])
      | Inr interim \<Rightarrow>
          (if ps \<noteq> Some 200 then Inl (Exception (put_error_message p)) else Inr (),
           [PutObject (clean_bucket_name p) (clean_obj_key (alert_obj_key p)) (to_csv lib interim),
            if ps \<noteq> Some 200 then LogError (put_error_message p)
            else LogInfo (''Transformed '' @ raw_bucket_name p @ ''/'' @ alert_obj_key p @
                          '' and wrote result to '' @ clean_bucket_name p @ ''/'' @
                          clean_obj_key (alert_obj_key p))]))"
  by (simp add: doc_and_write_def write_stage_def Let_def split: sum.splits)

lemma header_cell_Some:
  "header_cell doc = Some s \<longleftrightarrow> (\<exists>cells rows others. doc = Inr (((s # cells) # rows) # others))"
  by (auto simp: header_cell_def split: sum.splits list.splits)

lemma doc_table_stage_clock:
  assumes same: "map_option (fuzzy lib now) (header_cell doc) =
                 map_option (fuzzy lib now') (header_cell doc)"
  shows "doc_table_stage lib now doc prev = doc_table_stage lib now' doc prev'"
proof (cases "header_cell doc")
  case (Some s)
  with same have f: "fuzzy lib now s = fuzzy lib now' s" by simp
  from Some obtain cells rows others where "doc = Inr (((s # cells) # rows) # others)"
    by (auto simp: header_cell_Some)
  with f show ?thesis
    by (simp add: doc_table_stage_def Let_def bind_py_def iloc00_first_cell header_date_def)
next
  case None
  show ?thesis
  proof (cases doc)
    case (Inl e)
    then show ?thesis by (simp add: doc_table_stage_def bind_py_def)
  next
    case (Inr tables)
    show ?thesis
    proof (cases tables)
      case Nil
      with Inr show ?thesis by (simp add: doc_table_stage_def bind_py_def)
    next
      case (Cons table others)
      have hd: "header_date lib now c = header_date lib now' c"
        if "iloc00 (frame_of_rows table :: (nat, 'a) frame) = Inr c" for c
      proof -
        from iloc00_frame_of_rows [OF that] obtain row0 rows where
          t: "table = row0 # rows" and c: "c = (case row0 of [] \<Rightarrow> NA | s # rest \<Rightarrow> Str s)"
          by blast
        from None Inr Cons t have "row0 = []"
          by (cases row0) (simp_all add: header_cell_def)
        with c show ?thesis by (simp add: header_date_def)
      qed
      show ?thesis
      proof (cases "iloc00 (frame_of_rows table :: (nat, 'a) frame)")
        case (Inl e)
        with Inr Cons show ?thesis by (simp add: doc_table_stage_def Let_def bind_py_def)
      next
        case (Inr c)
        with hd [OF Inr] \<open>doc = Inr tables\<close> Cons show ?thesis
          by (simp add: doc_table_stage_def Let_def bind_py_def)
      qed
    qed
  qed
qed

section \<open>The example, evaluated\<close>

lemma ex_frame:
  "frame_of_rows example_table =
  [(0::nat, [Str ''Alert reported on March 3, 2024'', Str ''Anti-Microbial Resistance RT-PCR'',
             Str ''KPC'']),
   (1, [Str [], Str ''Organism ID'', Str ''K. pneumoniae'']),
   (2, [NA, Str ''Patient Name'', Str ''Doe, Jane'']),
   (3, [NA, Str ''DOB'', Str ''2024-01-05'']),
   (4, [NA, Str ''Source'', Str ''uRINE'']),
   (5, [NA, Str ''Date of Collection'', Str ''unknown'']),
   (6, [NA, Str ''Received from'', Str ''General Hospital''])]"
  by (simp add: frame_of_rows_def example_table_def upt_rec)

lemma ex_promote: "promote_header (frame_of_rows example_table) = Inr example_data"
  by (simp add: ex_frame promote_header_def df_nrows_def example_data_def)

lemma ex_get:
  "df_getitem example_data (Str ''Anti-Microbial Resistance RT-PCR'') = Inr [Str ''KPC'']"
  "df_getitem example_data (Str ''Organism ID'') = Inr [Str ''K. pneumoniae'']"
  "df_getitem example_data (Str ''Patient Name'') = Inr [Str ''Doe, Jane'']"
  "df_getitem example_data (Str ''DOB'') = Inr [Str ''2024-01-05'']"
  "df_getitem example_data (Str ''Source'') = Inr [Str ''uRINE'']"
  "df_getitem example_data (Str ''Date of Collection'') = Inr [Str ''unknown'']"
  "df_getitem example_data (Str ''Received from'') = Inr [Str ''General Hospital'']"
  by (simp_all add: df_getitem_def example_data_def)

lemma ex_get_str: "df_getitem_str example_data (Str ''Source'') = Inr [Str ''uRINE'']"
  by (simp add: df_getitem_str_Inr ex_get)

lemma ex_cap: "str_method example_library py_capitalize [Str ''uRINE''] = Inr [Str ''Urine'']"
  by (simp add: str_method_def example_library_def py_capitalize_def to_upper_def to_lower_def
    ascii_uppercase_def ascii_lowercase_def)

lemma ex_dt:
  "to_datetime_coerce example_library [Str ''2024-01-05''] = [Ts ''2024-01-05'']"
  "to_datetime_coerce example_library [Str ''unknown''] = [NA]"
  by (simp_all add: to_datetime_coerce_def example_library_def)

lemma ex_interim:
  "doc_table_interim example_library ''2024-03-03'' example_data = Inr example_interim"
  unfolding doc_table_interim_def Let_def ex_get ex_get_str bind_py_def sum.case ex_cap
    doc_frame_eval
  by (simp add: doc_frame_def ex_dt example_interim_def)

lemma ex_iloc:
  "iloc00 (frame_of_rows example_table :: (nat, string) frame) =
     Inr (Str ''Alert reported on March 3, 2024'')"
  by (simp add: ex_frame iloc00_def)

lemma ex_header:
  "header_date example_library example_now (Str ''Alert reported on March 3, 2024'') = Inr ''2024-03-03''"
  by (simp add: header_date_def example_library_def)

lemma example_stage:
  "doc_table_stage example_library example_now (Inr [example_table]) prev = Inr example_interim"
  by (simp add: doc_table_stage_def Let_def ex_iloc ex_header ex_promote ex_interim bind_py_def)

lemma ex_csv: "to_csv example_library example_interim = example_csv"
  by (simp add: to_csv_def csv_rows_def example_interim_def df_columns_def render_cell_def
     example_library_def csv_line_def csv_field_def example_csv_def header_text_def)

lemma ex_run_tail:
  "doc_and_write example_library example_now example_params (Some 200) (Inr [example_table]) prev =
     (Inr (), [PutObject ''clean'' ''alerts/report.csv'' example_csv,
               LogInfo ''Transformed raw/alerts/report.xlsx and wrote result to clean/alerts/report.csv''])"
  by (simp add: doc_and_write_def example_stage write_stage_def ex_csv example_params_def
        clean_obj_key_def py_replace.simps)

lemma ex_load_sheet: "load_sheet example_sheet = Inr example_sheet_data"
  by (simp add: load_sheet_def example_sheet_def example_sheet_data_def OUT_COL_NAMES_def)

lemma ex_sheet_get:
  "df_getitem example_sheet_data ''Testing-Results'' = Inr [Str ''KPC - Candida auris'']"
  "df_getitem example_sheet_data ''Date_Received'' = Inr [Str ''2024-01-05'']"
  "df_getitem example_sheet_data ''Date_Reported'' = Inr [Str ''unknown'']"
  "df_getitem example_sheet_data ''Last_Name'' = Inr [Str ''DOE'']"
  "df_getitem example_sheet_data ''First_Name'' = Inr [Str ''jane'']"
  "df_getitem example_sheet_data ''DOB'' = Inr [Str ''2024-01-05'']"
  "df_getitem example_sheet_data ''Specimen'' = Inr [Str ''uRINE'']"
  "df_getitem example_sheet_data ''Date_Collection'' = Inr [Str ''2024-01-05'']"
  by (simp_all add: df_getitem_def example_sheet_data_def)

lemma ex_sheet_get_str:
  "df_getitem_str example_sheet_data ''Last_Name'' = Inr [Str ''DOE'']"
  "df_getitem_str example_sheet_data ''First_Name'' = Inr [Str ''jane'']"
  "df_getitem_str example_sheet_data ''Specimen'' = Inr [Str ''uRINE'']"
  by (simp_all add: df_getitem_str_Inr ex_sheet_get)

lemma ex_sheet_pairs:
  "hyphen_pairs [Str ''KPC - Candida auris'' :: string cell] = Inr [(''KPC'', ''Candida auris'')]"
  by (simp add: hyphen_pairs_def split_cell_def unpack_strip_def bind_py_def py_strip_def
        py_isspace_def)

lemma ex_sheet_str:
  "str_method example_library py_title [Str ''DOE''] = Inr [Str ''Doe'']"
  "str_method example_library py_title [Str ''jane''] = Inr [Str ''Jane'']"
  by (simp_all add: str_method_def example_library_def py_title_def is_upper_def is_lower_def
        to_upper_def to_lower_def ascii_uppercase_def ascii_lowercase_def)

lemma ex_sheet_interim:
  "spreadsheet_interim example_library True example_sheet_data = Inr example_sheet_interim"
  unfolding spreadsheet_interim_def Let_def ex_sheet_get ex_sheet_get_str if_True
    ex_sheet_pairs bind_py_def sum.case ex_sheet_str ex_cap unzip_pairs_def
  by (simp add: sheet_frame_eval sheet_frame_def ex_dt example_sheet_interim_def add_str_def
        add_cols_def)

lemma ex_frame_header:
  "frame_of_rows ([h, []] # tl example_table) =
  [(0::nat, [Str h, Str ''Anti-Microbial Resistance RT-PCR'', Str ''KPC'']),
   (1, [Str [], Str ''Organism ID'', Str ''K. pneumoniae'']),
   (2, [NA, Str ''Patient Name'', Str ''Doe, Jane'']),
   (3, [NA, Str ''DOB'', Str ''2024-01-05'']),
   (4, [NA, Str ''Source'', Str ''uRINE'']),
   (5, [NA, Str ''Date of Collection'', Str ''unknown'']),
   (6, [NA, Str ''Received from'', Str ''General Hospital''])]"
  by (simp add: frame_of_rows_def example_table_def upt_rec)

lemma ex_promote_header:
  "promote_header (frame_of_rows ([h, []] # tl example_table)) = Inr example_data"
  by (simp add: ex_frame_header promote_header_def df_nrows_def example_data_def)

lemma ex_interim_later:
  "doc_table_interim example_library ''2025-03-03'' example_data = Inr example_interim_later"
  unfolding doc_table_interim_def Let_def ex_get ex_get_str bind_py_def sum.case ex_cap
    doc_frame_eval
  by (simp add: doc_frame_def ex_dt example_interim_later_def)

lemma ex_header_undated:
  "header_date example_library example_now (Str ''Alert reported on March 3'') = Inr ''2024-03-03''"
  "header_date example_library example_later (Str ''Alert reported on March 3'') = Inr ''2025-03-03''"
  by (simp_all add: header_date_def example_library_def example_now_def example_later_def)

lemma ex_stage_undated:
  "doc_table_stage example_library example_now
     (Inr [[''Alert reported on March 3'', []] # tl example_table]) prev = Inr example_interim"
  "doc_table_stage example_library example_later
     (Inr [[''Alert reported on March 3'', []] # tl example_table]) prev = Inr example_interim_later"
  by (simp_all add: doc_table_stage_def Let_def iloc00_first_cell ex_header_undated
        ex_promote_header ex_interim ex_interim_later bind_py_def)

lemma ex_csv_later: "to_csv example_library example_interim_later = example_csv_later"
  by (simp add: to_csv_def csv_rows_def example_interim_later_def df_columns_def render_cell_def
     example_library_def csv_line_def csv_field_def example_csv_later_def header_text_def)

section \<open>What is written is the document table's record set\<close>

text \<open>
  C1. Whatever value \<^verbatim>\<open>interim\<close> has when line 168 is reached, in particular the frame the
  spreadsheet parser built, every \<^verbatim>\<open>put_object\<close> request of the rest of the script carries
  the CSV text of the frame the document-table parser builds from an empty one: its
  \<^verbatim>\<open>Testing Lab\<close> column holds \<^verbatim>\<open>GPHL\<close> in every record and \<^verbatim>\<open>TNL\<close> in none, its columns are
  the nine canonical ones followed by \<^verbatim>\<open>Facility of Origin\<close>, and the text starts with the
  line of these ten labels.
\<close>

theorem written_records_come_from_document_table:
  assumes "PutObject b k body \<in> set (snd (doc_and_write lib now p put_status doc prev))"
  shows "\<exists>interim lab.
           doc_table_stage lib now doc df_empty = Inr interim \<and>
           body = to_csv lib interim \<and>
           df_getitem interim ''Testing Lab'' = Inr lab \<and>
           lab = replicate (df_nrows interim) (Str ''GPHL'') \<and>
           Str ''TNL'' \<notin> set lab \<and>
           df_columns interim = canonical_columns @ [''Facility of Origin''] \<and>
           (\<exists>rest. body = header_text @ [CHR 0x0A] @ rest)"
proof -
  from doc_and_write_put [OF assms] obtain interim where
    stage: "doc_table_stage lib now doc df_empty = Inr interim" and body: "body = to_csv lib interim"
    by blast
  from doc_table_stage_frame [OF stage] obtain d mech org name dob source coll fac where
    "interim = doc_frame lib d mech org name dob source coll fac"
    by blast
  then have lab: "df_getitem interim ''Testing Lab'' =
        Inr (replicate (df_nrows interim) (Str ''GPHL''))"
    and cols: "df_columns interim = canonical_columns @ [''Facility of Origin'']"
    by (simp_all add: doc_frame_get)
  from cols body have "body = header_text @ [CHR 0x0A] @
      concat (map (csv_line lib) (tl (csv_rows lib interim)))"
    by (simp add: to_csv_header header_line)
  moreover have "Str ''TNL'' \<notin> set (replicate (df_nrows interim) (Str ''GPHL'' :: 'a cell))"
    by simp
  ultimately show ?thesis using stage body lab cols by blast
qed

theorem written_records_come_from_document_table_witness:
  "PutObject ''clean'' ''alerts/report.csv'' example_csv \<in>
     set (snd (doc_and_write example_library example_now example_params (Some 200) (Inr [example_table])
                 example_sheet_interim)) \<and>
   doc_table_stage example_library example_now (Inr [example_table]) df_empty = Inr example_interim \<and>
   example_csv = to_csv example_library example_interim \<and>
   df_getitem example_interim ''Testing Lab'' = Inr [Str ''GPHL'']"
proof -
  have put: "PutObject ''clean'' ''alerts/report.csv'' example_csv \<in>
     set (snd (doc_and_write example_library example_now example_params (Some 200) (Inr [example_table])
                 example_sheet_interim))"
    by (simp add: ex_run_tail)
  from written_records_come_from_document_table [OF put] obtain interim where
    "doc_table_stage example_library example_now (Inr [example_table]) df_empty = Inr interim"
    "example_csv = to_csv example_library interim"
    "df_getitem interim ''Testing Lab'' = Inr (replicate (df_nrows interim) (Str ''GPHL''))"
    by blast
  moreover have "df_nrows example_interim = Suc 0" by (simp add: df_nrows_def example_interim_def)
  ultimately show ?thesis using put by (simp add: example_stage)
qed

section \<open>The strategy is never selected\<close>

text \<open>
  C2. The claim: the hyphen strategy is selected exactly when \<^verbatim>\<open>Candida auris\<close> occurs in the
  Testing-Results column, the organism-prefix strategy otherwise. Line 121 calls
  \<^verbatim>\<open>find\<close> on the whole frame, whose labels are the fifteen of \<open>OUT_COL_NAMES\<close>: for every
  sheet that line 105 accepts, the lookup of \<^verbatim>\<open>find\<close> raises \<^verbatim>\<open>AttributeError\<close>, whatever the
  column holds, and the run ends there, before either strategy and before any output.
\<close>

theorem find_raises_on_every_sheet:
  "load_sheet cols = Inr data \<Longrightarrow>
     df_find data ''Candida auris'' = Inl AttributeError \<and>
     spreadsheet_stage lib (Inr cols) = Inl AttributeError \<and>
     fst (run lib now p (Some 200) put_status (Inr cols) doc) = Inl AttributeError \<and>
     snd (run lib now p (Some 200) put_status (Inr cols) doc) =
       [GetObject (raw_bucket_name p) (alert_obj_key p),
        LogInfo (''Obtained object '' @ alert_obj_key p @ '' from bucket '' @
                 raw_bucket_name p @ ''.'')]"
proof -
  assume sheet: "load_sheet cols = Inr data"
  then have "df_columns data = OUT_COL_NAMES"
    by (auto simp: load_sheet_def Let_def df_columns_def split: if_splits)
  then have found: "df_find data ''Candida auris'' = Inl AttributeError"
    by (simp add: df_find_def df_getattr_def bind_py_def OUT_COL_NAMES_def)
  with sheet have stage: "spreadsheet_stage lib (Inr cols) = Inl AttributeError"
    by (simp add: spreadsheet_stage_def bind_py_def)
  then have "run lib now p (Some 200) put_status (Inr cols) doc =
    (Inl AttributeError,
     [GetObject (raw_bucket_name p) (alert_obj_key p),
      LogInfo (''Obtained object '' @ alert_obj_key p @ '' from bucket '' @
               raw_bucket_name p @ ''.'')])"
    by (simp add: run_def Let_def)
  with found stage show ?thesis by simp
qed

theorem find_raises_on_every_sheet_witness:
  "load_sheet example_sheet = Inr example_sheet_data \<and>
   df_find example_sheet_data ''Candida auris'' = Inl AttributeError \<and>
   spreadsheet_stage example_library (Inr example_sheet) = Inl AttributeError"
  using find_raises_on_every_sheet [OF ex_load_sheet, of example_library] ex_load_sheet
  by simp

section \<open>The organism-prefix strategy never yields UNKNOWN\<close>

lemma org_match_shape: "org_match s = Some m \<Longrightarrow> \<exists>a body. m = a # CHR ''.'' # body"
  by (auto simp: org_match_def Let_def split: list.splits if_splits)

lemma re_search_shape: "re_search s = Some m \<Longrightarrow> \<exists>a body. m = a # CHR ''.'' # body"
  by (induction s) (auto split: option.splits dest: org_match_shape)

text \<open>
  C3. The claim: under the organism-prefix convention, a cell with a match of the pattern
  (capital letter, period, any characters up to a following comma) gets the match as
  organism and the cell without it as mechanism, and a cell without a match gets the organism
  \<^verbatim>\<open>UNKNOWN\<close>, nothing being raised. The first half holds in the script, with every match
  of the pattern deleted from the mechanism. The second half does not: \<^verbatim>\<open>.group(0)\<close> is
  called on the result of \<^verbatim>\<open>search\<close> before \<^verbatim>\<open>or "UNKNOWN"\<close> is reached, so every cell
  without a match raises \<^verbatim>\<open>AttributeError\<close>, and no cell at all gets the organism
  \<^verbatim>\<open>UNKNOWN\<close>, since a match is never empty.
\<close>

theorem prefix_pair_never_unknown:
  "(re_search s = Some g \<longrightarrow> prefix_pair (Str s :: 'd cell) = Inr (re_sub_empty s, g)) \<and>
   (re_search s = None \<longrightarrow> prefix_pair (Str s :: 'd cell) = Inl AttributeError) \<and>
   prefix_pair (c :: 'd cell) \<noteq> Inr (mech, ''UNKNOWN'')"
  by (auto simp: prefix_pair_def Let_def split: cell.splits option.splits dest: re_search_shape)

theorem prefix_pair_never_unknown_witness:
  "re_search ''mecA gene detected'' = None \<and>
   prefix_pair (Str ''mecA gene detected'' :: unit cell) = Inl AttributeError \<and>
   re_search ''KPC, K. pneumoniae, urine'' = Some ''K. pneumoniae'' \<and>
   prefix_pair (Str ''KPC, K. pneumoniae, urine'' :: unit cell) =
     Inr (''KPC, , urine'', ''K. pneumoniae'')"
proof -
  have none: "re_search ''mecA gene detected'' = None"
    by (simp add: org_match_def is_upper_def ascii_uppercase_def)
  have some: "re_search ''KPC, K. pneumoniae, urine'' = Some ''K. pneumoniae''"
    by (simp add: org_match_def is_upper_def ascii_uppercase_def)
  have sub: "re_sub_empty ''KPC, K. pneumoniae, urine'' = ''KPC, , urine''"
    by (simp add: re_sub_empty.simps org_match_def is_upper_def ascii_uppercase_def)
  from prefix_pair_never_unknown
    [where s = "''mecA gene detected''" and c = "NA :: unit cell"] none
  have r1: "prefix_pair (Str ''mecA gene detected'' :: unit cell) = Inl AttributeError"
    by blast
  from prefix_pair_never_unknown
    [where s = "''KPC, K. pneumoniae, urine''" and g = "''K. pneumoniae''"
       and c = "NA :: unit cell"] some
  have r2: "prefix_pair (Str ''KPC, K. pneumoniae, urine'' :: unit cell) =
              Inr (re_sub_empty ''KPC, K. pneumoniae, urine'', ''K. pneumoniae'')"
    by blast
  from none some r1 r2 sub show ?thesis by simp
qed

section \<open>The hyphen strategy needs exactly one hyphen\<close>

lemma py_split_length: "length (py_split sep s) = Suc (count_list s sep)"
  by (induction s) (auto split: list.splits)

lemma py_split_none: "count_list s sep = 0 \<Longrightarrow> py_split sep s = [s]"
  by (induction s) (auto split: list.splits if_splits)

lemma py_split_one:
  "count_list s sep = 1 \<Longrightarrow>
     py_split sep s = [takeWhile (\<lambda>c. c \<noteq> sep) s, tl (dropWhile (\<lambda>c. c \<noteq> sep) s)]"
  by (induction s) (auto split: list.splits if_splits simp: py_split_none)

lemma traverse_py_single_error:
  assumes only: "\<forall>y \<in> set xs. \<forall>e'. f y = Inl e' \<longrightarrow> e' = e"
    and bad: "\<exists>x \<in> set xs. f x = Inl e"
  shows "traverse_py f xs = Inl e"
  using assms
proof (induction xs)
  case Nil
  then show ?case by simp
next
  case (Cons y ys)
  show ?case
  proof (cases "f y")
    case (Inl e')
    with Cons.prems(1) have "e' = e" by simp
    with Inl show ?thesis by (simp add: bind_py_def)
  next
    case (Inr v)
    with Cons.prems(2) have "\<exists>x \<in> set ys. f x = Inl e" by auto
    moreover from Cons.prems(1)
    have "\<forall>y \<in> set ys. \<forall>e'. f y = Inl e' \<longrightarrow> e' = e" by simp
    ultimately have "traverse_py f ys = Inl e" by (rule Cons.IH [rotated])
    with Inr show ?thesis by (simp add: bind_py_def)
  qed
qed

lemma unpack_strip_split:
  "unpack_strip (py_split CHR ''-'' s) =
     (if count_list s CHR ''-'' = 1 then Inr (hyphen_sides s) else Inl ValueError)"
proof (cases "count_list s CHR ''-'' = 1")
  case True
  then show ?thesis by (simp add: py_split_one unpack_strip_def hyphen_sides_def)
next
  case False
  then have "length (py_split CHR ''-'' s) \<noteq> 2" by (simp add: py_split_length)
  with False show ?thesis
    by (auto simp: unpack_strip_def split: list.splits)
qed

lemma split_cell_text: "is_text c \<Longrightarrow> split_cell c = Inr (py_split CHR ''-'' (text_of c))"
  by (cases c) (simp_all add: is_text_def text_of_def split_cell_def)

lemma split_cell_other: "\<not> is_text c \<Longrightarrow> split_cell c = Inl AttributeError"
  by (cases c) (simp_all add: is_text_def split_cell_def)

lemma split_cells_text:
  "list_all is_text col \<Longrightarrow>
     traverse_py split_cell col = Inr (map (\<lambda>c. py_split CHR ''-'' (text_of c)) col)"
  by (induction col) (simp_all add: bind_py_def split_cell_text)

lemma split_cells_other:
  "\<not> list_all is_text col \<Longrightarrow> traverse_py split_cell col = Inl AttributeError"
proof (rule traverse_py_single_error)
  show "\<forall>y \<in> set col. \<forall>e'. split_cell y = Inl e' \<longrightarrow> e' = AttributeError"
    by (auto simp: split_cell_def split: cell.splits)
  assume "\<not> list_all is_text col"
  then obtain x where "x \<in> set col" "\<not> is_text x"
    by (auto simp: list_all_iff)
  then show "\<exists>x \<in> set col. split_cell x = Inl AttributeError"
    using split_cell_other by blast
qed

text \<open>
  C5. The claim: under the hyphen convention every cell is split into exactly a left and a
  right part. That fails for a cell that does not hold exactly one hyphen: the unpacking
  \<^verbatim>\<open>for m, o in ...\<close> raises \<^verbatim>\<open>ValueError\<close> on one piece and on three or more.
\<close>

theorem hyphen_pairs_counterexample:
  "hyphen_pairs [Str ''NDM-1 - Candida auris'' :: unit cell] = Inl ValueError"
  by (simp add: hyphen_pairs_def split_cell_def unpack_strip_def bind_py_def)

text \<open>
  C5 as amended, for every column. When some cell of the column is not text (an empty cell
  of the sheet), the strategy raises \<^verbatim>\<open>AttributeError\<close>, whatever the other cells hold: all
  cells are split before any is unpacked. When every cell is text with exactly one hyphen,
  each cell gives the trimmed text left of the hyphen as mechanism and the trimmed text
  right of it as organism. When every cell is text and some cell holds no hyphen or more
  than one, the strategy raises \<^verbatim>\<open>ValueError\<close>. In both failing cases it gives nothing.
\<close>

theorem hyphen_pairs_exactly_one_hyphen:
  "(\<not> list_all is_text col \<longrightarrow> hyphen_pairs col = Inl AttributeError) \<and>
   (list_all is_text col \<and> (\<forall>c \<in> set col. count_list (text_of c) CHR ''-'' = 1) \<longrightarrow>
      hyphen_pairs col = Inr (map (\<lambda>c. hyphen_sides (text_of c)) col)) \<and>
   (list_all is_text col \<and> (\<exists>c \<in> set col. count_list (text_of c) CHR ''-'' \<noteq> 1) \<longrightarrow>
      hyphen_pairs col = Inl ValueError)"
proof (intro conjI impI)
  assume "\<not> list_all is_text col"
  then show "hyphen_pairs col = Inl AttributeError"
    by (simp add: hyphen_pairs_def split_cells_other bind_py_def)
next
  assume a: "list_all is_text col \<and> (\<forall>c \<in> set col. count_list (text_of c) CHR ''-'' = 1)"
  then have "traverse_py unpack_strip (map (\<lambda>c. py_split CHR ''-'' (text_of c)) col) =
      Inr (map (\<lambda>c. hyphen_sides (text_of c)) col)"
    by (induction col) (auto simp: bind_py_def unpack_strip_split)
  with a show "hyphen_pairs col = Inr (map (\<lambda>c. hyphen_sides (text_of c)) col)"
    by (simp add: hyphen_pairs_def split_cells_text bind_py_def)
next
  assume a: "list_all is_text col \<and> (\<exists>c \<in> set col. count_list (text_of c) CHR ''-'' \<noteq> 1)"
  have "traverse_py unpack_strip (map (\<lambda>c. py_split CHR ''-'' (text_of c)) col) = Inl ValueError"
  proof (rule traverse_py_single_error)
    show "\<forall>y \<in> set (map (\<lambda>c. py_split CHR ''-'' (text_of c)) col).
            \<forall>e'. unpack_strip y = Inl e' \<longrightarrow> e' = ValueError"
      by (auto simp: unpack_strip_split split: if_splits)
    from a show "\<exists>x \<in> set (map (\<lambda>c. py_split CHR ''-'' (text_of c)) col).
        unpack_strip x = Inl ValueError"
      by (auto simp: unpack_strip_split)
  qed
  with a show "hyphen_pairs col = Inl ValueError"
    by (simp add: hyphen_pairs_def split_cells_text bind_py_def)
qed

theorem hyphen_pairs_exactly_one_hyphen_witness:
  "hyphen_pairs [Str ''MechX - OrgY'' :: unit cell] = Inr [(''MechX'', ''OrgY'')] \<and>
   hyphen_pairs [Str ''Candida auris'' :: unit cell] = Inl ValueError \<and>
   hyphen_pairs [Str ''a-b-c'', NA :: unit cell] = Inl AttributeError"
proof -
  have sides: "hyphen_sides ''MechX - OrgY'' = (''MechX'', ''OrgY'')"
    by (simp add: hyphen_sides_def py_strip_def py_isspace_def)
  have r1: "hyphen_pairs [Str ''MechX - OrgY'' :: unit cell] =
              Inr (map (\<lambda>c. hyphen_sides (text_of c)) [Str ''MechX - OrgY'' :: unit cell])"
    using hyphen_pairs_exactly_one_hyphen [of "[Str ''MechX - OrgY'' :: unit cell]"]
    by (simp add: is_text_def text_of_def)
  have r2: "hyphen_pairs [Str ''Candida auris'' :: unit cell] = Inl ValueError"
    using hyphen_pairs_exactly_one_hyphen [of "[Str ''Candida auris'' :: unit cell]"]
    by (simp add: is_text_def text_of_def)
  have r3: "hyphen_pairs [Str ''a-b-c'', NA :: unit cell] = Inl AttributeError"
    using hyphen_pairs_exactly_one_hyphen [of "[Str ''a-b-c'', NA :: unit cell]"]
    by (simp add: is_text_def)
  from r1 r2 r3 sides show ?thesis by (simp add: text_of_def)
qed

section \<open>One report date for the whole document\<close>

text \<open>
  C6. Whenever the document-table parser succeeds, the table starts with a row whose first
  cell \<open>s\<close> the fuzzy parser reads as a date \<open>d\<close>, the output has one record for each row
  after the first two, and the columns \<^verbatim>\<open>Date Received\<close> and \<^verbatim>\<open>Date Reported\<close> hold \<open>d\<close> in
  every record.
\<close>

theorem header_date_on_every_record:
  assumes "doc_table_stage lib now (Inr (table # others)) prev = Inr interim"
  shows "\<exists>s row0 rows d.
           table = (s # row0) # rows \<and> fuzzy lib now s = Inr d \<and>
           df_nrows interim = length table - 2 \<and>
           df_getitem interim ''Date Received'' = Inr (replicate (length table - 2) (Ts d)) \<and>
           df_getitem interim ''Date Reported'' = Inr (replicate (length table - 2) (Ts d))"
proof -
  from doc_table_stage_frame [OF assms] obtain s row0 rows d mech org name dob source coll fac
    where "table = (s # row0) # rows" "fuzzy lib now s = Inr d"
      "interim = doc_frame lib d mech org name dob source coll fac"
      "length mech = Suc (length rows) - 2"
    by auto
  then show ?thesis by (simp add: doc_frame_get)
qed

theorem header_date_on_every_record_witness:
  "doc_table_stage example_library example_now (Inr [example_table]) [] = Inr example_interim \<and>
   df_getitem example_interim ''Date Received'' = Inr [Ts ''2024-03-03''] \<and>
   df_getitem example_interim ''Date Reported'' = Inr [Ts ''2024-03-03'']"
proof -
  have stage: "doc_table_stage example_library example_now (Inr (example_table # [])) [] = Inr example_interim"
    by (rule example_stage)
  from header_date_on_every_record [OF stage] obtain s row0 rows d where
    t: "example_table = (s # row0) # rows" and d: "fuzzy example_library example_now s = Inr d" and
    cols: "df_getitem example_interim ''Date Received'' = Inr (replicate (length example_table - 2) (Ts d))"
      "df_getitem example_interim ''Date Reported'' = Inr (replicate (length example_table - 2) (Ts d))"
    by blast
  from t have "s = ''Alert reported on March 3, 2024''" by (simp add: example_table_def)
  with d have "d = ''2024-03-03''" by (simp add: example_library_def)
  moreover have "length example_table - 2 = Suc 0" by (simp add: example_table_def)
  ultimately show ?thesis using cols stage by simp
qed

section \<open>The output key is not the key with its extension replaced\<close>

text \<open>
  C7. The claim: the output key is the input key with only its filename extension replaced,
  every other segment unchanged, also for a key with another extension or with the
  extension's text in an earlier segment. The script replaces every \<^verbatim>\<open>.xlsx\<close> in the key:
  a directory named \<^verbatim>\<open>alerts.xlsx\<close> is renamed, and the key of a \<^verbatim>\<open>.docx\<close> document is
  left as it is.
\<close>

theorem clean_obj_key_replaces_everywhere:
  "clean_obj_key ''alerts.xlsx/2024/report.xlsx'' = ''alerts.csv/2024/report.csv'' \<and>
   clean_obj_key ''alerts/2024/report.docx'' = ''alerts/2024/report.docx''"
  by (simp add: clean_obj_key_def py_replace.simps)

section \<open>A failed read or write ends the run\<close>

text \<open>
  C8. The claim: a status other than success of the read or of the write ends the run with
  an error log, no retry and no partial output, the write being aborted before output is
  produced or overwritten. The script learns the status of the write from the response to
  \<^verbatim>\<open>put_object\<close> (lines 208 to 214): when that status is not 200, the request that carries
  the complete CSV text has been made. With the store answering 500 to the request for the
  example document, the events are that request, then the error log.
\<close>

theorem write_request_precedes_its_status:
  "doc_and_write example_library example_now example_params (Some 500) (Inr [example_table]) [] =
     (Inl (Exception ''ERROR - Could not write transformed data object alerts/report.csv to bucket clean. ETL Cannot continue.''),
      [PutObject ''clean'' ''alerts/report.csv'' example_csv,
       LogError ''ERROR - Could not write transformed data object alerts/report.csv to bucket clean. ETL Cannot continue.''])"
  by (simp add: doc_and_write_cases example_stage ex_csv put_error_message_def example_params_def
        clean_obj_key_def py_replace.simps)

text \<open>
  C8 as amended. When the response to \<^verbatim>\<open>get_object\<close> has a status other than 200, the run
  logs the error and raises at once: the events are the one read and the error log, nothing
  is parsed and no request to write is made. The status of the write is the answer to the
  one \<^verbatim>\<open>put_object\<close> request, which carries the whole CSV text, and is read after that
  request: when it is not 200, the script logs the error and raises. In every run: a status
  of the write other than 200 lets the run end with an exception; there is at most one
  request to write, so no retry; and an error log is the last event of its run, which raises
  with the logged message.
\<close>

theorem failed_status_ends_the_run:
  "(get_status \<noteq> Some 200 \<longrightarrow>
      run lib now p get_status put_status xl doc =
        (Inl (Exception (get_error_message p)),
         [GetObject (raw_bucket_name p) (alert_obj_key p), LogError (get_error_message p)])) \<and>
   (put_status \<noteq> Some 200 \<and> doc_table_stage lib now doc prev = Inr interim \<longrightarrow>
      doc_and_write lib now p put_status doc prev =
        (Inl (Exception (put_error_message p)),
         [PutObject (clean_bucket_name p) (clean_obj_key (alert_obj_key p)) (to_csv lib interim),
          LogError (put_error_message p)])) \<and>
   (put_status \<noteq> Some 200 \<longrightarrow>
      (\<exists>e. fst (run lib now p get_status put_status xl doc) = Inl e)) \<and>
   length (filter is_put (snd (run lib now p get_status put_status xl doc))) \<le> 1 \<and>
   (LogError m \<in> set (snd (run lib now p get_status put_status xl doc)) \<longrightarrow>
      fst (run lib now p get_status put_status xl doc) = Inl (Exception m) \<and>
      last (snd (run lib now p get_status put_status xl doc)) = LogError m)"
proof (intro conjI impI)
  assume "get_status \<noteq> Some 200"
  then show "run lib now p get_status put_status xl doc =
        (Inl (Exception (get_error_message p)),
         [GetObject (raw_bucket_name p) (alert_obj_key p), LogError (get_error_message p)])"
    by (simp add: run_def Let_def)
next
  assume "put_status \<noteq> Some 200 \<and> doc_table_stage lib now doc prev = Inr interim"
  then show "doc_and_write lib now p put_status doc prev =
        (Inl (Exception (put_error_message p)),
         [PutObject (clean_bucket_name p) (clean_obj_key (alert_obj_key p)) (to_csv lib interim),
          LogError (put_error_message p)])"
    by (simp add: doc_and_write_cases)
next
  assume "put_status \<noteq> Some 200"
  then show "\<exists>e. fst (run lib now p get_status put_status xl doc) = Inl e"
    by (auto simp: run_def Let_def doc_and_write_cases split: sum.splits)
next
  show "length (filter is_put (snd (run lib now p get_status put_status xl doc))) \<le> 1"
    by (auto simp: run_def Let_def doc_and_write_cases is_put_def split: sum.splits)
next
  assume "LogError m \<in> set (snd (run lib now p get_status put_status xl doc))"
  then show "fst (run lib now p get_status put_status xl doc) = Inl (Exception m)"
    by (auto simp: run_def Let_def doc_and_write_cases split: sum.splits if_splits)
next
  assume "LogError m \<in> set (snd (run lib now p get_status put_status xl doc))"
  then show "last (snd (run lib now p get_status put_status xl doc)) = LogError m"
    by (auto simp: run_def Let_def doc_and_write_cases split: sum.splits if_splits)
qed

theorem failed_status_ends_the_run_witness:
  "run example_library example_now example_params (Some 404) (Some 500) (Inr [])
       (Inr [example_table]) =
     (Inl (Exception ''ERROR - Could not get object alerts/report.xlsx from bucket raw. ETL Cannot continue.''),
      [GetObject ''raw'' ''alerts/report.xlsx'',
       LogError ''ERROR - Could not get object alerts/report.xlsx from bucket raw. ETL Cannot continue.'']) \<and>
   doc_table_stage example_library example_now (Inr [example_table]) [] = Inr example_interim \<and>
   snd (doc_and_write example_library example_now example_params (Some 500)
          (Inr [example_table]) []) =
     [PutObject ''clean'' ''alerts/report.csv'' (to_csv example_library example_interim),
      LogError ''ERROR - Could not write transformed data object alerts/report.csv to bucket clean. ETL Cannot continue.''] \<and>
   last (snd (run example_library example_now example_params (Some 404) (Some 500) (Inr [])
                (Inr [example_table]))) =
     LogError ''ERROR - Could not get object alerts/report.xlsx from bucket raw. ETL Cannot continue.''"
proof -
  have g: "Some (404::int) \<noteq> Some 200" and w: "Some (500::int) \<noteq> Some 200" by simp_all
  note inst = failed_status_ends_the_run
    [where get_status = "Some 404" and put_status = "Some 500" and lib = example_library
       and now = example_now and p = example_params and xl = "Inr []"
       and doc = "Inr [example_table]" and prev = "[]" and interim = example_interim
       and m = "''ERROR - Could not get object alerts/report.xlsx from bucket raw. ETL Cannot continue.''"]
  from inst g have r: "run example_library example_now example_params (Some 404) (Some 500)
      (Inr []) (Inr [example_table]) =
        (Inl (Exception (get_error_message example_params)),
         [GetObject (raw_bucket_name example_params) (alert_obj_key example_params),
          LogError (get_error_message example_params)])"
    by blast
  from inst w example_stage [of "[]"]
  have d: "doc_and_write example_library example_now example_params (Some 500)
      (Inr [example_table]) [] =
        (Inl (Exception (put_error_message example_params)),
         [PutObject (clean_bucket_name example_params)
            (clean_obj_key (alert_obj_key example_params)) (to_csv example_library example_interim),
          LogError (put_error_message example_params)])"
    by blast
  have msg: "get_error_message example_params =
      ''ERROR - Could not get object alerts/report.xlsx from bucket raw. ETL Cannot continue.''"
    by (simp add: get_error_message_def example_params_def)
  from r msg have "LogError ''ERROR - Could not get object alerts/report.xlsx from bucket raw. ETL Cannot continue.''
      \<in> set (snd (run example_library example_now example_params (Some 404) (Some 500)
                (Inr []) (Inr [example_table])))"
    by simp
  with inst have l: "last (snd (run example_library example_now example_params (Some 404) (Some 500)
      (Inr []) (Inr [example_table]))) =
     LogError ''ERROR - Could not get object alerts/report.xlsx from bucket raw. ETL Cannot continue.''"
    by blast
  show ?thesis
    using r d l example_stage [of "[]"]
    by (simp add: msg put_error_message_def example_params_def clean_obj_key_def py_replace.simps)
qed

section \<open>The order of the output columns\<close>

text \<open>
  C9. Whenever the spreadsheet parser builds its frame, with either strategy, the columns are
  the nine canonical ones in order, and \<^verbatim>\<open>Facility of Origin\<close> is not among them. Whenever
  the document-table parser builds its frame, the columns are the same nine followed by
  \<^verbatim>\<open>Facility of Origin\<close>; its CSV has the line of these ten labels first, then one row
  per record with exactly ten fields, so no index column.
\<close>

theorem output_columns_are_fixed:
  "(spreadsheet_interim lib cond data = Inr si \<longrightarrow> df_columns si = canonical_columns) \<and>
   (doc_table_stage lib now doc prev = Inr di \<longrightarrow>
      df_columns di = canonical_columns @ [''Facility of Origin''] \<and>
      (\<exists>rows. csv_rows lib di = (canonical_columns @ [''Facility of Origin'']) # rows \<and>
               length rows = df_nrows di \<and> (\<forall>row \<in> set rows. length row = 10)) \<and>
      (\<exists>rest. to_csv lib di = header_text @ [CHR 0x0A] @ rest)) \<and>
   ''Facility of Origin'' \<notin> set canonical_columns"
proof (intro conjI impI)
  assume "spreadsheet_interim lib cond data = Inr si"
  from spreadsheet_interim_shape [OF this] obtain mech org received reported name dob source coll
    where "si = sheet_frame mech org received reported name dob source coll"
    by blast
  then show "df_columns si = canonical_columns"
    by (simp add: sheet_frame_def df_columns_def canonical_columns_def)
next
  assume stage: "doc_table_stage lib now doc prev = Inr di"
  from doc_table_stage_frame [OF stage] obtain d mech org name dob source coll fac n where
    di: "di = doc_frame lib d mech org name dob source coll fac" and
    lens: "length mech = n" "length org = n" "length name = n" "length dob = n"
      "length source = n" "length coll = n" "length fac = n"
    by metis
  from di show cols: "df_columns di = canonical_columns @ [''Facility of Origin'']"
    by (simp add: doc_frame_get)
  from di have "di \<noteq> []" "length di = 10" by (simp_all add: doc_frame_def)
  with csv_rows_rect [OF doc_frame_rect [OF lens], of lib d lib] di cols lens(1)
  show "\<exists>rows. csv_rows lib di = (canonical_columns @ [''Facility of Origin'']) # rows \<and>
               length rows = df_nrows di \<and> (\<forall>row \<in> set rows. length row = 10)"
    by (simp add: doc_frame_get)
  from cols show "\<exists>rest. to_csv lib di = header_text @ [CHR 0x0A] @ rest"
    by (simp add: to_csv_header header_line)
next
  show "''Facility of Origin'' \<notin> set canonical_columns"
    by (simp add: canonical_columns_def)
qed

theorem output_columns_are_fixed_witness:
  "spreadsheet_interim example_library True example_sheet_data = Inr example_sheet_interim \<and>
   df_columns example_sheet_interim = canonical_columns \<and>
   doc_table_stage example_library example_now (Inr [example_table]) [] = Inr example_interim \<and>
   df_columns example_interim = canonical_columns @ [''Facility of Origin'']"
  using output_columns_are_fixed
    [where lib = example_library and cond = True and data = example_sheet_data
       and si = example_sheet_interim and doc = "Inr [example_table]" and prev = "[]"
       and di = example_interim]
    ex_sheet_interim example_stage [of "[]"]
  by simp

section \<open>The stored text depends on the document and on the date read from its header\<close>

text \<open>
  C10. The claim: two runs on the same input with the same parameters store the same text.
  Line 175 lets dateutil complete the date of the header from the clock: a header that
  names a day and a month and no year is read as a date of the current year. The same
  document, with the same parameters and the same library, gives one text when the clock
  reads a day of 2024 and another when it reads a day of 2025.
\<close>

theorem same_document_later_clock_other_text:
  "PutObject ''clean'' ''alerts/report.csv'' example_csv \<in>
     set (snd (doc_and_write example_library example_now example_params (Some 200)
                 (Inr [[''Alert reported on March 3'', []] # tl example_table]) [])) \<and>
   PutObject ''clean'' ''alerts/report.csv'' example_csv_later \<in>
     set (snd (doc_and_write example_library example_later example_params (Some 200)
                 (Inr [[''Alert reported on March 3'', []] # tl example_table]) [])) \<and>
   example_csv \<noteq> example_csv_later"
  by (simp add: doc_and_write_cases ex_stage_undated ex_csv ex_csv_later example_params_def
        clean_obj_key_def py_replace.simps example_csv_def example_csv_later_def)

text \<open>
  C10 as amended. Two runs of the script on the same input with the same parameters, at
  two times at which the header of the document (if it has one) is read as the same date
  or rejected with the same exception, end in the same way with the same events, and so do
  the two runs of the script from line 168 on, whatever the earlier value of \<^verbatim>\<open>interim\<close>;
  the texts two such runs store are the same also when the bucket names, the key
  and the store's answer differ. The text of every request to write, for every document,
  library and clock, starts with the same header line.
\<close>

theorem stored_text_depends_on_document_and_header_date:
  assumes same: "map_option (fuzzy lib now) (header_cell doc) =
                 map_option (fuzzy lib now') (header_cell doc)"
  shows "run lib now p get_status put_status xl doc = run lib now' p get_status put_status xl doc \<and>
         doc_and_write lib now p put_status doc prev = doc_and_write lib now' p put_status doc prev' \<and>
         (PutObject b k body \<in> set (snd (doc_and_write lib now p put_status doc prev)) \<and>
          PutObject b' k' body' \<in> set (snd (doc_and_write lib now' p' put_status' doc prev'))
            \<longrightarrow> body = body') \<and>
         (PutObject b2 k2 body2 \<in> set (snd (doc_and_write lib2 now2 p2 put_status2 doc2 prev2))
            \<longrightarrow> (\<exists>rest. body2 = header_text @ [CHR 0x0A] @ rest))"
proof (intro conjI impI)
  have stage: "doc_table_stage lib now doc x = doc_table_stage lib now' doc y" for x y
    using same by (rule doc_table_stage_clock)
  show "doc_and_write lib now p put_status doc prev = doc_and_write lib now' p put_status doc prev'"
    by (simp add: doc_and_write_def stage [of prev prev'])
  have dw: "doc_and_write lib now p put_status doc x = doc_and_write lib now' p put_status doc x" for x
    by (simp add: doc_and_write_def stage [of x x])
  show "run lib now p get_status put_status xl doc = run lib now' p get_status put_status xl doc"
    by (cases "spreadsheet_stage lib xl") (simp_all add: run_def Let_def dw)
  {
    assume puts: "PutObject b k body \<in> set (snd (doc_and_write lib now p put_status doc prev)) \<and>
          PutObject b' k' body' \<in> set (snd (doc_and_write lib now' p' put_status' doc prev'))"
    from doc_and_write_put [OF puts [THEN conjunct1]] obtain interim where
      i: "doc_table_stage lib now doc df_empty = Inr interim" "body = to_csv lib interim"
      by blast
    from doc_and_write_put [OF puts [THEN conjunct2]] obtain interim' where
      i': "doc_table_stage lib now' doc df_empty = Inr interim'" "body' = to_csv lib interim'"
      by blast
    from i i' stage [of df_empty df_empty] show "body = body'" by simp
  }
  {
    assume "PutObject b2 k2 body2 \<in> set (snd (doc_and_write lib2 now2 p2 put_status2 doc2 prev2))"
    from doc_and_write_put [OF this] obtain interim where
      stage2: "doc_table_stage lib2 now2 doc2 df_empty = Inr interim" and
      body2: "body2 = to_csv lib2 interim"
      by blast
    from doc_table_stage_frame [OF stage2] obtain d mech org name dob source coll fac where
      "interim = doc_frame lib2 d mech org name dob source coll fac"
      by blast
    then have "df_columns interim = canonical_columns @ [''Facility of Origin'']"
      by (simp add: doc_frame_get)
    then have "to_csv lib2 interim =
        header_text @ [CHR 0x0A] @ concat (map (csv_line lib2) (tl (csv_rows lib2 interim)))"
      by (simp add: to_csv_header header_line)
    with body2 show "\<exists>rest. body2 = header_text @ [CHR 0x0A] @ rest" by blast
  }
qed

theorem stored_text_depends_on_document_and_header_date_witness:
  "map_option (fuzzy example_library example_now) (header_cell (Inr [example_table])) =
     map_option (fuzzy example_library example_later) (header_cell (Inr [example_table])) \<and>
   PutObject ''clean'' ''alerts/report.csv'' example_csv \<in>
     set (snd (doc_and_write example_library example_now example_params (Some 200)
                 (Inr [example_table]) [])) \<and>
   PutObject ''clean'' ''alerts/report.csv'' example_csv \<in>
     set (snd (doc_and_write example_library example_later example_params (Some 500)
                 (Inr [example_table]) [(''Testing Lab'', [Str ''TNL''])])) \<and>
   doc_and_write example_library example_later example_params (Some 200) (Inr [example_table])
       [(''Testing Lab'', [Str ''TNL''])] =
     (Inr (), [PutObject ''clean'' ''alerts/report.csv'' example_csv,
               LogInfo ''Transformed raw/alerts/report.xlsx and wrote result to clean/alerts/report.csv'']) \<and>
   (\<exists>rest. example_csv = header_text @ [CHR 0x0A] @ rest)"
proof -
  have same: "map_option (fuzzy example_library example_now) (header_cell (Inr [example_table])) =
     map_option (fuzzy example_library example_later) (header_cell (Inr [example_table]))"
    by (simp add: header_cell_def example_table_def example_library_def)
  note inst = stored_text_depends_on_document_and_header_date [OF same]
  have first: "PutObject ''clean'' ''alerts/report.csv'' example_csv \<in>
     set (snd (doc_and_write example_library example_now example_params (Some 200)
                 (Inr [example_table]) []))"
    by (simp add: ex_run_tail)
  have "doc_and_write example_library example_now example_params (Some 200)
      (Inr [example_table]) [] =
    doc_and_write example_library example_later example_params (Some 200)
      (Inr [example_table]) [(''Testing Lab'', [Str ''TNL''])]"
    by (rule inst [THEN conjunct2, THEN conjunct1])
  then have later: "doc_and_write example_library example_later example_params (Some 200)
      (Inr [example_table]) [(''Testing Lab'', [Str ''TNL''])] =
     (Inr (), [PutObject ''clean'' ''alerts/report.csv'' example_csv,
               LogInfo ''Transformed raw/alerts/report.xlsx and wrote result to clean/alerts/report.csv''])"
    by (simp add: ex_run_tail)
  have refused: "PutObject ''clean'' ''alerts/report.csv'' example_csv \<in>
     set (snd (doc_and_write example_library example_now example_params (Some 500)
                 (Inr [example_table]) []))"
    by (simp add: doc_and_write_cases example_stage ex_csv example_params_def
          clean_obj_key_def py_replace.simps)
  have "doc_and_write example_library example_now example_params (Some 500)
      (Inr [example_table]) [] =
    doc_and_write example_library example_later example_params (Some 500)
      (Inr [example_table]) [(''Testing Lab'', [Str ''TNL''])]"
    by (rule inst [THEN conjunct2, THEN conjunct1])
  with refused have second: "PutObject ''clean'' ''alerts/report.csv'' example_csv \<in>
     set (snd (doc_and_write example_library example_later example_params (Some 500)
                 (Inr [example_table]) [(''Testing Lab'', [Str ''TNL''])]))"
    by simp
  from inst [where ?b2.0 = "''clean''" and ?k2.0 = "''alerts/report.csv''" and ?body2.0 = example_csv
       and ?lib2.0 = example_library and ?now2.0 = example_now and ?p2.0 = example_params
       and ?put_status2.0 = "Some 200" and ?doc2.0 = "Inr [example_table]" and ?prev2.0 = "[]"]
    first
  have hdr: "\<exists>rest. example_csv = header_text @ [CHR 0x0A] @ rest" by blast
  from same first second later hdr show ?thesis by blast
qed

end
